theory Spec2Isabelle
  imports Complex_Main "HOL-Library.Multiset"
begin

section \<open>Numbers and vertex buffers\<close>

text \<open>
  The scene code computes on JavaScript numbers. They are idealised here as real numbers:
  rounding and the infinities are outside the model. The one non-number the code can meet
  by itself is kept: reading a typed array past its end gives \<^verbatim>\<open>undefined\<close>, which
  arithmetic turns into NaN, and NaN is \<open>None\<close>. Every operation of the source that
  receives NaN returns NaN (\<^verbatim>\<open>Math.min\<close>, \<^verbatim>\<open>Math.max\<close> and \<^verbatim>\<open>Math.sin\<close> included).
\<close>

type_synonym jsnum = "real option"

definition num_lift2 :: "(real \<Rightarrow> real \<Rightarrow> real) \<Rightarrow> jsnum \<Rightarrow> jsnum \<Rightarrow> jsnum" where
  "num_lift2 f a b =
     (case a of None \<Rightarrow> None
      | Some x \<Rightarrow> (case b of None \<Rightarrow> None | Some y \<Rightarrow> Some (f x y)))"

definition num_add :: "jsnum \<Rightarrow> jsnum \<Rightarrow> jsnum" where
  "num_add = num_lift2 (+)"

definition num_mul :: "jsnum \<Rightarrow> jsnum \<Rightarrow> jsnum" where
  "num_mul = num_lift2 (*)"

definition num_div :: "jsnum \<Rightarrow> jsnum \<Rightarrow> jsnum" where
  "num_div = num_lift2 (/)"

definition num_min :: "jsnum \<Rightarrow> jsnum \<Rightarrow> jsnum" where
  "num_min = num_lift2 min"

definition num_max :: "jsnum \<Rightarrow> jsnum \<Rightarrow> jsnum" where
  "num_max = num_lift2 max"

definition num_sin :: "jsnum \<Rightarrow> jsnum" where
  "num_sin = map_option sin"

text \<open>
  \<^verbatim>\<open>a[i]\<close> on a typed array: the element, or \<^verbatim>\<open>undefined\<close> (NaN once used as a number)
  past the end. A write past the end of a typed array is dropped, which is what
  \<open>xs[i := v]\<close> does.
\<close>

definition rd :: "jsnum list \<Rightarrow> nat \<Rightarrow> jsnum" where
  "rd xs i = (if i < length xs then xs ! i else None)"

section \<open>Meshes\<close>

text \<open>
  \<open>pos_count\<close>, \<open>pos_array\<close> and \<open>pos_needsUpdate\<close> are
  \<^verbatim>\<open>geometry.attributes.position.count\<close>, \<^verbatim>\<open>.array\<close> and \<^verbatim>\<open>.needsUpdate\<close>;
  \<open>originalPositions\<close> is \<^verbatim>\<open>geometry.userData.originalPositions\<close> (\<open>None\<close> while
  unset); \<open>normalsComputed\<close> records that \<^verbatim>\<open>computeVertexNormals()\<close> ran.
\<close>

record geometry =
  geo_name :: string
  pos_count :: nat
  pos_array :: "jsnum list"
  pos_needsUpdate :: bool
  normalsComputed :: bool
  originalPositions :: "jsnum list option"

record material =
  mat_name :: string
  color :: string
  emissive :: string
  emissiveIntensity :: real
  mat_needsUpdate :: bool

datatype mesh_material = Single material | Multi "material list"

text \<open>
  Every mesh owns its geometry and material in this model; two meshes sharing one geometry
  object are not represented.
\<close>

record mesh =
  mesh_name :: string
  geometry :: geometry
  material :: mesh_material

section \<open>The ripple field (\<^verbatim>\<open>rippleMesh\<close> inside \<^verbatim>\<open>useFrame\<close>)\<close>

definition waveSpeed :: real where
  "waveSpeed = 42 / 10"

definition waveLength :: real where
  "waveLength = 2"

definition width :: real where
  "width = 4"

text \<open>One iteration of the \<^verbatim>\<open>for\<close> loop of \<^verbatim>\<open>rippleMesh\<close>, for vertex \<open>i\<close>.\<close>

definition rippleVertex :: "real \<Rightarrow> real \<Rightarrow> jsnum list \<Rightarrow> nat \<Rightarrow> jsnum list \<Rightarrow> jsnum list" where
  "rippleVertex time waveHeight original i arr =
     (let ix = i * 3;
          x = rd original ix;
          y = rd original (ix + 1);
          z = rd original (ix + 2);
          edgeFactor =
            num_min (num_max (num_div (num_add x (Some (width / 2))) (Some width)) (Some 0))
              (Some 1);
          wave =
            num_mul
              (num_mul (num_sin (num_add (Some (time * waveSpeed)) (num_mul x (Some waveLength))))
                 (Some waveHeight))
              edgeFactor
      in arr[ix := x, ix + 1 := num_add y wave, ix + 2 := num_add z wave])"

text \<open>
  \<^verbatim>\<open>rippleMesh\<close>: nothing happens without the rest-position cache; otherwise the loop runs
  over \<open>0 \<le> i < pos.count\<close> and the buffer is flagged for upload.
\<close>

definition rippleMesh :: "real \<Rightarrow> real \<Rightarrow> mesh \<Rightarrow> mesh" where
  "rippleMesh time waveHeight m =
     (let geo = geometry m in
      case originalPositions geo of
        None \<Rightarrow> m
      | Some original \<Rightarrow>
          m\<lparr>geometry := geo\<lparr>
               pos_array := fold (rippleVertex time waveHeight original) [0..<pos_count geo]
                              (pos_array geo),
               pos_needsUpdate := True\<rparr>\<rparr>)"

section \<open>The flag component\<close>

text \<open>
  The refs of \<^verbatim>\<open>FlagModel\<close>: \<open>waveStrength\<close>, \<open>isClickable\<close>, \<open>flagRef\<close> (the primary
  target) and the four further targets stashed on \<open>flagRef\<close>. \<open>href\<close> is
  \<^verbatim>\<open>window.location.href\<close> once assigned, \<open>cursor\<close> the body's cursor style,
  \<open>warnings\<close> the \<^verbatim>\<open>console.warn\<close> lines. \<open>rippleCalls\<close> counts the invocations of
  \<^verbatim>\<open>rippleMesh\<close> and \<open>emissiveTweens\<close> the \<^verbatim>\<open>gsap.to(mat, ...)\<close> calls of the frame
  callback. \<open>rotationY\<close> is \<^verbatim>\<open>root.rotation.y\<close>, and \<open>phase\<close> says where the intro
  animation started by the setup stands: the rotation tween or the decay tween, each with
  the time it has run, or neither.
\<close>

datatype flag_phase = NotStarted | Rotating real | Decaying real | Finished

record flag_state =
  rotationY :: real
  phase :: flag_phase
  waveStrength :: real
  isClickable :: bool
  flagRef :: "mesh option"
  secondary :: "mesh option"
  tertiary :: "mesh option"
  quaternary :: "mesh option"
  quincenternary :: "mesh option"
  href :: "string option"
  cursor :: string
  warnings :: "string list"
  rippleCalls :: nat
  emissiveTweens :: nat

definition isSingle :: "mesh \<Rightarrow> bool" where
  "isSingle m = (case material m of Single _ \<Rightarrow> True | Multi _ \<Rightarrow> False)"

definition present :: "'a option \<Rightarrow> nat" where
  "present v = (case v of None \<Rightarrow> 0 | Some _ \<Rightarrow> 1)"

text \<open>The \<^verbatim>\<open>useFrame\<close> callback at elapsed time \<open>time\<close>.\<close>

definition useFrame :: "real \<Rightarrow> flag_state \<Rightarrow> flag_state" where
  "useFrame time st =
     (if waveStrength st \<le> 0 then st
      else case flagRef st of
        None \<Rightarrow> st
      | Some primary \<Rightarrow>
          (case secondary st of
             None \<Rightarrow> st
           | Some secondary' \<Rightarrow>
               (let waveHeight = (15 / 100) * waveStrength st;
                    ripple = rippleMesh time waveHeight
                in st\<lparr>flagRef := Some (ripple primary),
                      secondary := Some (ripple secondary'),
                      tertiary := map_option ripple (tertiary st),
                      quaternary := map_option ripple (quaternary st),
                      quincenternary := map_option ripple (quincenternary st),
                      rippleCalls := rippleCalls st + 2 + present (tertiary st)
                                     + present (quaternary st) + present (quincenternary st),
                      emissiveTweens := emissiveTweens st
                                     + (if isSingle primary then 1 else 0)
                                     + (if isSingle secondary' then 1 else 0)\<rparr>)))"

text \<open>The five target slots, in rank order.\<close>

definition targets :: "flag_state \<Rightarrow> mesh option list" where
  "targets st = [flagRef st, secondary st, tertiary st, quaternary st, quincenternary st]"

section \<open>The ripple field as the specification words it\<close>

text \<open>
  \<open>displace (x, y, z) t amplitudeScale\<close> follows the specification's contract: the edge
  falloff \<open>clamp((x + 2) / 4, 0, 1)\<close>, the wave
  \<open>sin(t * 4.2 + x * 2.0) * (0.15 * amplitudeScale) * edge\<close>, and the output
  \<open>(x, y + wave, z + wave)\<close>.
\<close>

definition clamp :: "real \<Rightarrow> real \<Rightarrow> real \<Rightarrow> real" where
  "clamp v lo hi = min (max v lo) hi"

definition spec_edge :: "real \<Rightarrow> real" where
  "spec_edge x = clamp ((x + 2) / 4) 0 1"

definition spec_wave :: "real \<Rightarrow> real \<Rightarrow> real \<Rightarrow> real" where
  "spec_wave x t amplitudeScale =
     sin (t * (42 / 10) + x * 2) * ((15 / 100) * amplitudeScale) * spec_edge x"

definition displace :: "real \<times> real \<times> real \<Rightarrow> real \<Rightarrow> real \<Rightarrow> real \<times> real \<times> real" where
  "displace p t amplitudeScale =
     (case p of (x, y, z) \<Rightarrow>
        (x, y + spec_wave x t amplitudeScale, z + spec_wave x t amplitudeScale))"

text \<open>Vertex \<open>i\<close> of a flat buffer, when all three components are there and are numbers.\<close>

definition vertex :: "jsnum list \<Rightarrow> nat \<Rightarrow> (real \<times> real \<times> real) option" where
  "vertex arr i =
     (case rd arr (i * 3) of None \<Rightarrow> None
      | Some x \<Rightarrow> (case rd arr (i * 3 + 1) of None \<Rightarrow> None
        | Some y \<Rightarrow> (case rd arr (i * 3 + 2) of None \<Rightarrow> None
          | Some z \<Rightarrow> Some (x, y, z))))"

section \<open>Flag setup (the \<^verbatim>\<open>useEffect\<close> of \<^verbatim>\<open>FlagModel\<close>)\<close>

datatype js_error = TypeError

text \<open>
  The traversal that fills \<^verbatim>\<open>deformMeshes\<close> also brightens a single material named
  \<^verbatim>\<open>DR_white\<close>.
\<close>

definition brighten :: "mesh \<Rightarrow> mesh" where
  "brighten m =
     (case material m of
        Multi _ \<Rightarrow> m
      | Single mat \<Rightarrow>
          if mat_name mat = ''DR_white''
          then m\<lparr>material := Single (mat\<lparr>color := ''#ffffff'', emissive := ''#ffffff'',
                   emissiveIntensity := 56 / 10, mat_needsUpdate := True\<rparr>)\<rparr>
          else m)"

text \<open>The comparator handed to \<^verbatim>\<open>deformMeshes.sort\<close>.\<close>

definition byVertexCount :: "mesh \<Rightarrow> mesh \<Rightarrow> int" where
  "byVertexCount a b = int (pos_count (geometry b)) - int (pos_count (geometry a))"

text \<open>
  \<^verbatim>\<open>Array.prototype.sort\<close> is stable by the language standard; which algorithm runs is the
  engine's choice. It is modelled as the insertion sort that puts an element before the
  first one it does not compare greater than, going through the array from its end. For a
  comparator that orders by a key any stable sort returns the same array.
\<close>

fun insort_cmp :: "('a \<Rightarrow> 'a \<Rightarrow> int) \<Rightarrow> 'a \<Rightarrow> 'a list \<Rightarrow> 'a list" where
  "insort_cmp cmp x [] = [x]"
| "insort_cmp cmp x (y # ys) =
     (if cmp x y \<le> 0 then x # y # ys else y # insort_cmp cmp x ys)"

definition js_sort :: "('a \<Rightarrow> 'a \<Rightarrow> int) \<Rightarrow> 'a list \<Rightarrow> 'a list" where
  "js_sort cmp xs = foldr (insort_cmp cmp) xs []"

text \<open>
  \<^verbatim>\<open>deformMeshes\<close> once the traversal has collected (and brightened) the meshes of the
  group and the array has been sorted.
\<close>

definition collectAndSort :: "mesh list \<Rightarrow> mesh list" where
  "collectAndSort meshes = js_sort byVertexCount (map brighten meshes)"

text \<open>\<^verbatim>\<open>a[k]\<close> on an ordinary array: \<^verbatim>\<open>undefined\<close> past the end.\<close>

definition nth_opt :: "'a list \<Rightarrow> nat \<Rightarrow> 'a option" where
  "nth_opt xs k = (if k < length xs then Some (xs ! k) else None)"

text \<open>
  The five variables \<^verbatim>\<open>primary\<close>, \<^verbatim>\<open>secondary\<close>, \<^verbatim>\<open>tertiary\<close>, \<^verbatim>\<open>quaternary\<close> and
  \<^verbatim>\<open>quincenternary\<close>, read from the sorted array.
\<close>

definition selectTargets :: "mesh list \<Rightarrow> mesh option list" where
  "selectTargets deformMeshes =
     [nth_opt deformMeshes 0, nth_opt deformMeshes 1, nth_opt deformMeshes 2,
      nth_opt deformMeshes 3, nth_opt deformMeshes 4]"

text \<open>
  The body of the caching \<^verbatim>\<open>forEach\<close>: \<^verbatim>\<open>mesh.geometry\<close> on \<^verbatim>\<open>undefined\<close> throws a
  TypeError; on a mesh the normals are computed and the position array is copied into
  \<^verbatim>\<open>userData.originalPositions\<close>.
\<close>

definition cacheMesh :: "mesh option \<Rightarrow> js_error + mesh" where
  "cacheMesh mo =
     (case mo of
        None \<Rightarrow> Inl TypeError
      | Some m \<Rightarrow>
          (let geo = geometry m
           in Inr (m\<lparr>geometry := geo\<lparr>normalsComputed := True,
                        originalPositions := Some (pos_array geo)\<rparr>\<rparr>)))"

fun forEachCache :: "mesh option list \<Rightarrow> js_error + mesh list" where
  "forEachCache [] = Inr []"
| "forEachCache (mo # rest) =
     (case cacheMesh mo of
        Inl e \<Rightarrow> Inl e
      | Inr m \<Rightarrow> (case forEachCache rest of Inl e \<Rightarrow> Inl e | Inr ms \<Rightarrow> Inr (m # ms)))"

definition warn :: "string \<Rightarrow> flag_state \<Rightarrow> flag_state" where
  "warn msg st = st\<lparr>warnings := warnings st @ [msg]\<rparr>"

text \<open>
  The setup. \<open>rootPresent\<close> is whether \<^verbatim>\<open>group.current\<close> is set; \<open>flagGroup\<close> is the
  result of looking up the group named \<^verbatim>\<open>Flag\<close>: \<open>None\<close> when it is missing or not a
  group, otherwise its meshes in traversal order. The result is the exception thrown, or
  the refs as the effect leaves them. The warning texts are the source's without their
  leading pictograph. Placing the group, enabling its render layer and the console listing
  of the meshes are left out.
\<close>

definition flagSetup :: "bool \<Rightarrow> mesh list option \<Rightarrow> flag_state \<Rightarrow> js_error + flag_state" where
  "flagSetup rootPresent flagGroup st =
     (if \<not> rootPresent then Inr st
      else case flagGroup of
        None \<Rightarrow> Inr (warn ''Flag group not found or invalid'' st)
      | Some meshes \<Rightarrow>
          (let deformMeshes = collectAndSort meshes;
               selected = selectTargets deformMeshes
           in if selected ! 0 = None \<or> selected ! 1 = None
              then Inr (warn ''Not enough deformable meshes found'' st)
              else case forEachCache selected of
                Inl e \<Rightarrow> Inl e
              | Inr cached \<Rightarrow>
                  Inr (st\<lparr>flagRef := nth_opt cached 0,
                          secondary := nth_opt cached 1,
                          tertiary := nth_opt cached 2,
                          quaternary := nth_opt cached 3,
                          quincenternary := nth_opt cached 4,
                          phase := Rotating 0\<rparr>)))"

text \<open>The component before its effect has run.\<close>

definition flagInit :: flag_state where
  "flagInit =
     \<lparr>rotationY = 0, phase = NotStarted, waveStrength = 0, isClickable = False,
      flagRef = None, secondary = None, tertiary = None, quaternary = None,
      quincenternary = None, href = None, cursor = ''default'', warnings = [],
      rippleCalls = 0, emissiveTweens = 0\<rparr>"

section \<open>Eases and the intro animation of the flag\<close>

text \<open>
  The animation library is not part of the repository. Its eases are written out as the
  library documents them (\<^verbatim>\<open>power2\<close> is the cubic), each a map of the progress in
  \<open>[0, 1]\<close>.
\<close>

datatype ease = Power2InOut | Power2Out | SineInOut

definition easeAt :: "ease \<Rightarrow> real \<Rightarrow> real" where
  "easeAt e p =
     (case e of
        Power2InOut \<Rightarrow> (if p < 1 / 2 then (2 * p) ^ 3 / 2 else 1 - (2 * (1 - p)) ^ 3 / 2)
      | Power2Out \<Rightarrow> 1 - (1 - p) ^ 3
      | SineInOut \<Rightarrow> - (cos (pi * p) - 1) / 2)"

text \<open>
  Modelled from the spec: how a tween of the animation library runs (for its duration,
  updating its target with the eased progress, and calling \<^verbatim>\<open>onComplete\<close> when the
  duration has passed). What the callbacks do is the source's.

  The two nested \<^verbatim>\<open>gsap.to\<close> calls of the setup, advanced by \<open>dt \<ge> 0\<close>. The rotation
  tween turns \<^verbatim>\<open>root.rotation.y\<close> from \<open>0\<close> to \<open>2\<pi>\<close> in 4 time units; its
  \<^verbatim>\<open>onComplete\<close> sets \<open>waveStrength\<close> to 5 and creates the decay tween, which starts at
  that moment and takes \<open>waveStrength\<close> to 0 in 5 time units; its \<^verbatim>\<open>onComplete\<close> sets
  \<open>isClickable\<close>.
\<close>

definition flagTick :: "real \<Rightarrow> flag_state \<Rightarrow> flag_state" where
  "flagTick dt st =
     (case phase st of
        NotStarted \<Rightarrow> st
      | Rotating e \<Rightarrow>
          if e + dt < 4
          then st\<lparr>rotationY := 2 * pi * easeAt Power2InOut ((e + dt) / 4),
                  phase := Rotating (e + dt)\<rparr>
          else st\<lparr>rotationY := 2 * pi, waveStrength := 5, phase := Decaying 0\<rparr>
      | Decaying e \<Rightarrow>
          if e + dt < 5
          then st\<lparr>waveStrength := 5 + (0 - 5) * easeAt Power2Out ((e + dt) / 5),
                  phase := Decaying (e + dt)\<rparr>
          else st\<lparr>waveStrength := 0, isClickable := True, phase := Finished\<rparr>
      | Finished \<Rightarrow> st)"

section \<open>Pointer handlers of the flag\<close>

definition Mat_Black :: material where
  "Mat_Black =
     \<lparr>mat_name = [], color = ''#000000'', emissive = ''#000000'', emissiveIntensity = 1,
      mat_needsUpdate = False\<rparr>"

definition message_console :: "flag_state \<Rightarrow> flag_state" where
  "message_console st =
     (case flagRef st of
        None \<Rightarrow> st
      | Some m \<Rightarrow>
          if geo_name (geometry m) = ''Plane''
          then st\<lparr>flagRef := Some (m\<lparr>material := Single (Mat_Black\<lparr>mat_needsUpdate := True\<rparr>)\<rparr>)\<rparr>
          else st)"

definition onPointerOver :: "flag_state \<Rightarrow> flag_state" where
  "onPointerOver st =
     (let st' = message_console st
      in if waveStrength st' > 0 then st' else st'\<lparr>cursor := ''pointer''\<rparr>)"

definition onPointerOut :: "flag_state \<Rightarrow> flag_state" where
  "onPointerOut st = st\<lparr>cursor := ''default''\<rparr>"

definition siteUrl :: string where
  "siteUrl = ''https://digitalrhinos.com''"

definition onClick :: "flag_state \<Rightarrow> flag_state" where
  "onClick st = (if waveStrength st > 0 then st else st\<lparr>href := Some siteUrl\<rparr>)"

text \<open>What can happen to the mounted flag, and a run of such events.\<close>

datatype flag_event = Tick real | Frame real | Click | PointerOver | PointerOut

fun flagStep :: "flag_event \<Rightarrow> flag_state \<Rightarrow> flag_state" where
  "flagStep (Tick dt) st = flagTick dt st"
| "flagStep (Frame time) st = useFrame time st"
| "flagStep Click st = onClick st"
| "flagStep PointerOver st = onPointerOver st"
| "flagStep PointerOut st = onPointerOut st"

definition flagRun :: "flag_event list \<Rightarrow> flag_state \<Rightarrow> flag_state" where
  "flagRun evs st = fold flagStep evs st"

text \<open>Ticks carry a time that has passed, so never a negative one.\<close>

fun wellTimed :: "flag_event \<Rightarrow> bool" where
  "wellTimed (Tick dt) = (0 \<le> dt)"
| "wellTimed _ = True"

section \<open>Timelines\<close>

text \<open>
  Modelled from the spec: the timeline of the animation library, which is not part of the
  repository. A timeline is an ordered list of steps: a tween with a duration, an ease and
  an update called with the eased progress, a wait with a duration only, and a callback
  that fires when it is reached and takes no time. A step begins only when the step before
  it has completed; a tween that completes is updated once more at progress 1.
\<close>

datatype 's step =
    Tween real ease "real \<Rightarrow> 's \<Rightarrow> 's"
  | Wait real
  | Call "'s \<Rightarrow> 's"

text \<open>
  \<open>advance pending e dt s\<close> moves the playhead by \<open>dt\<close>, where \<open>pending\<close> are the steps
  not yet completed and \<open>e\<close> is the time already spent in the first of them. It returns the
  steps still pending, the time spent in the first of those, and the new state.
\<close>

fun advance :: "'s step list \<Rightarrow> real \<Rightarrow> real \<Rightarrow> 's \<Rightarrow> 's step list \<times> real \<times> 's" where
  "advance [] e dt s = ([], 0, s)"
| "advance (Call f # rest) e dt s = advance rest 0 (e + dt) (f s)"
| "advance (Wait d # rest) e dt s =
     (if e + dt < d then (Wait d # rest, e + dt, s) else advance rest 0 (e + dt - d) s)"
| "advance (Tween d ez upd # rest) e dt s =
     (if e + dt < d then (Tween d ez upd # rest, e + dt, upd (easeAt ez ((e + dt) / d)) s)
      else advance rest 0 (e + dt - d) (upd 1 s))"

section \<open>The mascot\<close>

type_synonym quat = "real \<times> real \<times> real \<times> real"

record bone =
  bone_name :: string
  quaternion :: quat

text \<open>
  The bones of the loaded scene are kept in traversal order and a bone is referred to by
  its place in that list. \<open>position_x\<close> is \<^verbatim>\<open>group.current.position.x\<close> and so on.
  \<open>legPaused\<close> and \<open>legTime\<close> are the paused flag and the playhead of the looping leg
  timeline; \<open>legStarts\<close> and \<open>legStops\<close> count its changes from paused to playing and
  back.
\<close>

record rhino_world =
  bones :: "bone list"
  position_x :: real
  position_y :: real
  position_z :: real
  scale :: "real \<times> real \<times> real"
  rotation :: "real \<times> real \<times> real"
  legPaused :: bool
  legTime :: real
  legStarts :: nat
  legStops :: nat

text \<open>The four leg joints the setup has resolved, as places in the bone list.\<close>

record legs =
  frontLeg1L :: nat
  backLeg1L :: nat
  frontLeg1R :: nat
  backLeg1R :: nat

record rhino_timelines =
  legJoints :: legs
  pending :: "rhino_world step list"
  elapsed :: real

record rhino_state =
  world :: rhino_world
  timelines :: "rhino_timelines option"
  rhino_warnings :: "string list"

text \<open>
  \<^verbatim>\<open>foundBones[child.name] = child\<close> over the traversal: a later bone of the same name
  replaces an earlier one.
\<close>

definition collectBones :: "bone list \<Rightarrow> (string \<rightharpoonup> nat)" where
  "collectBones bs =
     fold (\<lambda>i found. found(bone_name (bs ! i) \<mapsto> i)) [0..<length bs] Map.empty"

definition lookAtViewerQuat :: quat where
  "lookAtViewerQuat =
     (- 3826812549074975 / 10 ^ 16, - 12971686512075215 / 10 ^ 19,
      31314363856131937 / 10 ^ 19, 9238742409459028 / 10 ^ 16)"

definition forwardFrontL :: quat where
  "forwardFrontL =
     (2105577234701947 / 10 ^ 16, - 7490538817867567 / 10 ^ 16,
      3166884659892685 / 10 ^ 16, 5424870461252903 / 10 ^ 16)"

definition backwardFrontL :: quat where
  "backwardFrontL =
     (43725962297372956 / 10 ^ 17, - 5181884477809773 / 10 ^ 16,
      6267806912284278 / 10 ^ 16, 38396714995369796 / 10 ^ 17)"

definition forwardBackL :: quat where
  "forwardBackL =
     (2923585826261666 / 10 ^ 16, - 7221053563528358 / 10 ^ 16,
      41249857984350696 / 10 ^ 17, 47216017797188514 / 10 ^ 17)"

definition backwardBackL :: quat where
  "backwardBackL =
     (46451037371875004 / 10 ^ 17, - 4801202747394801 / 10 ^ 16,
      6790255855492136 / 10 ^ 16, 3043663700300849 / 10 ^ 16)"

definition forwardFrontR :: quat where
  "forwardFrontR =
     (31663267436445885 / 10 ^ 17, - 5478111952176493 / 10 ^ 16,
      20930112921304217 / 10 ^ 17, 7455465778785493 / 10 ^ 16)"

definition backwardFrontR :: quat where
  "backwardFrontR =
     (6251117107370124 / 10 ^ 16, - 3892699585317157 / 10 ^ 16,
      43860342871477914 / 10 ^ 17, 515103192924535 / 10 ^ 15)"

definition forwardBackR :: quat where
  "forwardBackR =
     (48848472496773976 / 10 ^ 17, - 5147301606915479 / 10 ^ 16,
      2910137458299352 / 10 ^ 16, 6416749151988816 / 10 ^ 16)"

definition backwardBackR :: quat where
  "backwardBackR =
     (6968593983529858 / 10 ^ 16, - 36418252110954535 / 10 ^ 17,
      46584034808699476 / 10 ^ 17, 40589530946959085 / 10 ^ 17)"

text \<open>
  \<^verbatim>\<open>bone.quaternion.slerpQuaternions(a, b, t)\<close> writes the interpolation of \<open>a\<close> and \<open>b\<close>
  at \<open>t\<close> into the bone. The interpolation belongs to the 3D library and is a parameter,
  \<open>slerp\<close>, of everything below.
\<close>

definition setQuaternion :: "nat \<Rightarrow> quat \<Rightarrow> rhino_world \<Rightarrow> rhino_world" where
  "setQuaternion i q w = w\<lparr>bones := (bones w)[i := (bones w ! i)\<lparr>quaternion := q\<rparr>]\<rparr>"

text \<open>The \<^verbatim>\<open>onUpdate\<close> of the first and of the second tween of the leg timeline.\<close>

definition legUpdate1 ::
  "(quat \<Rightarrow> quat \<Rightarrow> real \<Rightarrow> quat) \<Rightarrow> legs \<Rightarrow> real \<Rightarrow> rhino_world \<Rightarrow> rhino_world" where
  "legUpdate1 slerp l t w =
     setQuaternion (backLeg1R l) (slerp backwardBackR forwardBackR t)
       (setQuaternion (frontLeg1R l) (slerp forwardFrontR backwardFrontR t)
          (setQuaternion (backLeg1L l) (slerp forwardBackL backwardBackL t)
             (setQuaternion (frontLeg1L l) (slerp backwardFrontL forwardFrontL t) w)))"

definition legUpdate2 ::
  "(quat \<Rightarrow> quat \<Rightarrow> real \<Rightarrow> quat) \<Rightarrow> legs \<Rightarrow> real \<Rightarrow> rhino_world \<Rightarrow> rhino_world" where
  "legUpdate2 slerp l t w =
     setQuaternion (backLeg1R l) (slerp forwardBackR backwardBackR t)
       (setQuaternion (frontLeg1R l) (slerp backwardFrontR forwardFrontR t)
          (setQuaternion (backLeg1L l) (slerp backwardBackL forwardBackL t)
             (setQuaternion (frontLeg1L l) (slerp forwardFrontL backwardFrontL t) w)))"

text \<open>
  Modelled from the spec: the looping leg timeline (\<^verbatim>\<open>repeat: -1\<close>), two tweens of half a
  time unit each, restarting from the first after the second. While it plays, its playhead
  moves by \<open>dt\<close> within the cycle of length 1 and the tween under the playhead is updated.
\<close>

definition legAdvance ::
  "(quat \<Rightarrow> quat \<Rightarrow> real \<Rightarrow> quat) \<Rightarrow> legs \<Rightarrow> real \<Rightarrow> rhino_world \<Rightarrow> rhino_world" where
  "legAdvance slerp l dt w =
     (let t = frac (legTime w + dt);
          w' = w\<lparr>legTime := t\<rparr>
      in if t < 1 / 2 then legUpdate1 slerp l (easeAt SineInOut (t / (1 / 2))) w'
         else legUpdate2 slerp l (easeAt SineInOut ((t - 1 / 2) / (1 / 2))) w')"

text \<open>\<^verbatim>\<open>legTl.play()\<close> and \<^verbatim>\<open>legTl.pause()\<close>.\<close>

definition legPlay :: "rhino_world \<Rightarrow> rhino_world" where
  "legPlay w =
     w\<lparr>legPaused := False, legStarts := legStarts w + (if legPaused w then 1 else 0)\<rparr>"

definition legPause :: "rhino_world \<Rightarrow> rhino_world" where
  "legPause w =
     w\<lparr>legPaused := True, legStops := legStops w + (if legPaused w then 0 else 1)\<rparr>"

text \<open>
  The steps of \<^verbatim>\<open>bodyTl\<close> in the order the setup appends them. The walk tween starts from
  the \<open>x\<close> that the setup has just set, \<open>-15\<close>: nothing else writes it before the tween
  begins.
\<close>

definition walkSteps :: "rhino_world step list" where
  "walkSteps =
     [Wait 5,
      Call legPlay,
      Tween 4 Power2InOut (\<lambda>p w. w\<lparr>position_x := - 15 + (- (95 / 10) - (- 15)) * p\<rparr>),
      Call legPause]"

definition lookAtSteps ::
  "(quat \<Rightarrow> quat \<Rightarrow> real \<Rightarrow> quat) \<Rightarrow> bone list \<Rightarrow> nat option \<Rightarrow> rhino_world step list" where
  "lookAtSteps slerp bs neckBone =
     (case neckBone of
        None \<Rightarrow> []
      | Some n \<Rightarrow>
          (let startQuat = quaternion (bs ! n)
           in [Tween (18 / 10) Power2Out
                 (\<lambda>t. setQuaternion n (slerp startQuat lookAtViewerQuat t))]))"

definition rhinoWarn :: "string \<Rightarrow> rhino_state \<Rightarrow> rhino_state" where
  "rhinoWarn msg st = st\<lparr>rhino_warnings := rhino_warnings st @ [msg]\<rparr>"

text \<open>
  The \<^verbatim>\<open>useEffect\<close> of \<^verbatim>\<open>RhinoModel\<close>. \<open>groupPresent\<close> is whether \<^verbatim>\<open>group.current\<close> is
  set; the bones of the scene are those of the world. The warning texts are the source's
  without their leading pictograph. The cleanup that kills both timelines when the
  component unmounts is left out.
\<close>

definition rhinoSetup ::
  "(quat \<Rightarrow> quat \<Rightarrow> real \<Rightarrow> quat) \<Rightarrow> bool \<Rightarrow> rhino_state \<Rightarrow> rhino_state" where
  "rhinoSetup slerp groupPresent st =
     (if \<not> groupPresent then st
      else
        (let found = collectBones (bones (world st));
             neckBone = found ''Neck_mover_bone'';
             st1 = (if neckBone = None then rhinoWarn ''Neck_mover_bone not found'' st else st)
         in case found ''Front_leg_1_L'' of None \<Rightarrow> rhinoWarn ''Missing leg bones'' st1
            | Some fl \<Rightarrow>
           (case found ''Back_leg_1_L'' of None \<Rightarrow> rhinoWarn ''Missing leg bones'' st1
            | Some bl \<Rightarrow>
           (case found ''Front_leg_1_R'' of None \<Rightarrow> rhinoWarn ''Missing leg bones'' st1
            | Some fr \<Rightarrow>
           (case found ''Back_leg_1_R'' of None \<Rightarrow> rhinoWarn ''Missing leg bones'' st1
            | Some br \<Rightarrow>
               st1\<lparr>world := (world st1)\<lparr>
                      position_x := - 15, position_y := - (9 / 10), position_z := - 3,
                      scale := (3 / 10, 3 / 10, 3 / 10),
                      rotation := (0, pi / 1, 0),
                      legPaused := True, legTime := 0\<rparr>,
                    timelines := Some
                      \<lparr>legJoints = \<lparr>frontLeg1L = fl, backLeg1L = bl, frontLeg1R = fr,
                                     backLeg1R = br\<rparr>,
                       pending = walkSteps @ lookAtSteps slerp (bones (world st1)) neckBone,
                       elapsed = 0\<rparr>\<rparr>)))))"

text \<open>
  One tick of the animation clock, \<open>dt\<close> after the one before: the leg timeline, created
  first, is advanced first if it is playing, then the body timeline. Without timelines
  nothing is animated.
\<close>

definition rhinoTick ::
  "(quat \<Rightarrow> quat \<Rightarrow> real \<Rightarrow> quat) \<Rightarrow> real \<Rightarrow> rhino_state \<Rightarrow> rhino_state" where
  "rhinoTick slerp dt st =
     (case timelines st of
        None \<Rightarrow> st
      | Some tls \<Rightarrow>
          (let w1 = (if legPaused (world st) then world st
                     else legAdvance slerp (legJoints tls) dt (world st))
           in case advance (pending tls) (elapsed tls) dt w1 of
                (pending', elapsed', w2) \<Rightarrow>
                  st\<lparr>world := w2,
                     timelines := Some (tls\<lparr>pending := pending', elapsed := elapsed'\<rparr>)\<rparr>))"

definition rhinoRun ::
  "(quat \<Rightarrow> quat \<Rightarrow> real \<Rightarrow> quat) \<Rightarrow> real list \<Rightarrow> rhino_state \<Rightarrow> rhino_state" where
  "rhinoRun slerp dts st = fold (rhinoTick slerp) dts st"

text \<open>The mascot before its effect has run, over the bones of the loaded scene.\<close>

definition rhinoInit :: "bone list \<Rightarrow> rhino_state" where
  "rhinoInit bs =
     \<lparr>world = \<lparr>bones = bs, position_x = 0, position_y = 0, position_z = 0,
               scale = (1, 1, 1), rotation = (0, 0, 0), legPaused = True, legTime = 0,
               legStarts = 0, legStops = 0\<rparr>,
      timelines = None, rhino_warnings = []\<rparr>"

section \<open>Auxiliary notions for the proofs\<close>

text \<open>
  The wave of the loop body of \<^verbatim>\<open>rippleMesh\<close>: on a buffer element (\<open>waveOf\<close>), and on a
  number (\<open>waveReal\<close>). \<open>outAt\<close> is what the loop writes at place \<open>k\<close> of the buffer.
\<close>

definition waveOf :: "real \<Rightarrow> real \<Rightarrow> jsnum \<Rightarrow> jsnum" where
  "waveOf time waveHeight x =
     num_mul
       (num_mul (num_sin (num_add (Some (time * waveSpeed)) (num_mul x (Some waveLength))))
          (Some waveHeight))
       (num_min (num_max (num_div (num_add x (Some (width / 2))) (Some width)) (Some 0))
          (Some 1))"

definition waveReal :: "real \<Rightarrow> real \<Rightarrow> real \<Rightarrow> real" where
  "waveReal time waveHeight x =
     sin (time * waveSpeed + x * waveLength) * waveHeight
       * min (max ((x + width / 2) / width) 0) 1"

definition outAt :: "real \<Rightarrow> real \<Rightarrow> jsnum list \<Rightarrow> nat \<Rightarrow> jsnum" where
  "outAt time waveHeight original k =
     (if k mod 3 = 0 then rd original k
      else num_add (rd original k) (waveOf time waveHeight (rd original (k div 3 * 3))))"

text \<open>
  Sample scenes for the worked examples. \<open>mkMesh\<close> builds a mesh the way the 3D library
  does: the vertex count is the length of the position array divided by 3.
\<close>

definition mkMesh :: "string \<Rightarrow> jsnum list \<Rightarrow> mesh" where
  "mkMesh nm arr =
     \<lparr>mesh_name = nm,
      geometry = \<lparr>geo_name = nm, pos_count = length arr div 3, pos_array = arr,
                  pos_needsUpdate = False, normalsComputed = False,
                  originalPositions = None\<rparr>,
      material = Single \<lparr>mat_name = ''DR_white'', color = ''#808080'', emissive = ''#000000'',
                         emissiveIntensity = 1, mat_needsUpdate = False\<rparr>\<rparr>"

definition cached :: "mesh \<Rightarrow> mesh" where
  "cached m =
     m\<lparr>geometry := (geometry m)\<lparr>normalsComputed := True,
                      originalPositions := Some (pos_array (geometry m))\<rparr>\<rparr>"

definition flat :: "nat \<Rightarrow> jsnum list" where
  "flat n = replicate (3 * n) (Some 0)"

definition sampleMeshes :: "mesh list" where
  "sampleMeshes =
     [mkMesh ''a'' (flat 1), mkMesh ''b'' (flat 3), mkMesh ''c'' (flat 1),
      mkMesh ''d'' (flat 2), mkMesh ''e'' (flat 3), mkMesh ''f'' (flat 0)]"

definition readyState :: flag_state where
  "readyState =
     flagInit\<lparr>flagRef := Some (cached (brighten (mkMesh ''b'' (flat 3)))),
              secondary := Some (cached (brighten (mkMesh ''e'' (flat 3)))),
              tertiary := Some (cached (brighten (mkMesh ''d'' (flat 2)))),
              quaternary := Some (cached (brighten (mkMesh ''a'' (flat 1)))),
              quincenternary := Some (cached (brighten (mkMesh ''c'' (flat 1)))),
              phase := Rotating 0\<rparr>"

definition vertexCount :: "mesh \<Rightarrow> nat" where
  "vertexCount m = pos_count (geometry m)"

definition freeEdgeMesh :: mesh where
  "freeEdgeMesh = cached (mkMesh ''Plane'' [Some 2, Some 0, Some 0])"

definition twoVertexMesh :: mesh where
  "twoVertexMesh =
     cached (mkMesh ''Plane'' [Some 2, Some 0, Some 0, Some (2 - pi / 4), Some 0, Some 0])"


definition wavingState :: "mesh \<Rightarrow> real \<Rightarrow> flag_state" where
  "wavingState m strength =
     flagInit\<lparr>phase := Decaying 0, waveStrength := strength, flagRef := Some m,
              secondary := Some m\<rparr>"

text \<open>A flag whose setup returned early: nothing stored, nothing started, nothing rippled.\<close>

definition static :: "flag_state \<Rightarrow> bool" where
  "static st \<longleftrightarrow> flagRef st = None \<and> secondary st = None \<and> tertiary st = None
     \<and> quaternary st = None \<and> quincenternary st = None \<and> phase st = NotStarted
     \<and> rippleCalls st = 0"

text \<open>
  What holds of the flag as long as the rotation tween runs: no amplitude yet, and no
  interactivity.
\<close>

definition rotatingInv :: "flag_state \<Rightarrow> bool" where
  "rotatingInv st =
     (case phase st of
        NotStarted \<Rightarrow> True
      | Rotating e \<Rightarrow> waveStrength st = 0 \<and> \<not> isClickable st
      | Decaying e \<Rightarrow> True
      | Finished \<Rightarrow> True)"

text \<open>
  The body timeline of the mascot as a function of the time \<open>T\<close> its playhead has reached:
  the steps still pending and the time spent in the first of them, and what the steps
  passed so far have left in the world. \<open>neck\<close> is the resolved neck joint, if any, and
  \<open>q0\<close> its orientation at setup.
\<close>

definition bodyPending ::
  "(quat \<Rightarrow> quat \<Rightarrow> real \<Rightarrow> quat) \<Rightarrow> bone list \<Rightarrow> nat option \<Rightarrow> real
     \<Rightarrow> rhino_world step list" where
  "bodyPending slerp bs neck T =
     (if T < 5 then walkSteps @ lookAtSteps slerp bs neck
      else if T < 9 then drop 2 walkSteps @ lookAtSteps slerp bs neck
      else if T < 9 + 18 / 10 then lookAtSteps slerp bs neck
      else [])"

definition bodyElapsed :: "nat option \<Rightarrow> real \<Rightarrow> real" where
  "bodyElapsed neck T =
     (if T < 5 then T
      else if T < 9 then T - 5
      else if neck \<noteq> None \<and> T < 9 + 18 / 10 then T - 9
      else 0)"

definition legPausedAt :: "real \<Rightarrow> bool" where
  "legPausedAt T = (T < 5 \<or> 9 \<le> T)"

definition legStartsAt :: "real \<Rightarrow> nat" where
  "legStartsAt T = (if T < 5 then 0 else 1)"

definition legStopsAt :: "real \<Rightarrow> nat" where
  "legStopsAt T = (if T < 9 then 0 else 1)"

definition positionAt :: "real \<Rightarrow> real" where
  "positionAt T =
     (if T < 5 then - 15
      else if T < 9 then - 15 + (- (95 / 10) - (- 15)) * easeAt Power2InOut ((T - 5) / 4)
      else - (95 / 10))"

definition neckAt :: "(quat \<Rightarrow> quat \<Rightarrow> real \<Rightarrow> quat) \<Rightarrow> quat \<Rightarrow> real \<Rightarrow> quat" where
  "neckAt slerp q0 T =
     (if T < 9 then q0
      else if T < 9 + 18 / 10
        then slerp q0 lookAtViewerQuat (easeAt Power2Out ((T - 9) / (18 / 10)))
      else slerp q0 lookAtViewerQuat 1)"

definition bodyCore ::
  "(quat \<Rightarrow> quat \<Rightarrow> real \<Rightarrow> quat) \<Rightarrow> bone list \<Rightarrow> nat option \<Rightarrow> real
     \<Rightarrow> rhino_world step list \<times> real \<times> rhino_world \<Rightarrow> bool" where
  "bodyCore slerp bs neck T x =
     (case x of (pend, e, w) \<Rightarrow>
        pend = bodyPending slerp bs neck T \<and> e = bodyElapsed neck T
        \<and> legPaused w = legPausedAt T \<and> legStarts w = legStartsAt T
        \<and> legStops w = legStopsAt T \<and> position_x w = positionAt T
        \<and> length (bones w) = length bs)"

definition bodyNeck ::
  "(quat \<Rightarrow> quat \<Rightarrow> real \<Rightarrow> quat) \<Rightarrow> bone list \<Rightarrow> nat option \<Rightarrow> real
     \<Rightarrow> rhino_world \<Rightarrow> bool" where
  "bodyNeck slerp bs neck T w =
     (case neck of
        None \<Rightarrow> True
      | Some n \<Rightarrow> quaternion (bones w ! n) = neckAt slerp (quaternion (bs ! n)) T)"

text \<open>The places of the four leg joints.\<close>

definition legSet :: "legs \<Rightarrow> nat set" where
  "legSet l = {frontLeg1L l, backLeg1L l, frontLeg1R l, backLeg1R l}"

text \<open>The state of a mounted mascot whose playhead is at \<open>T\<close>.\<close>

definition rhinoAt ::
  "(quat \<Rightarrow> quat \<Rightarrow> real \<Rightarrow> quat) \<Rightarrow> bone list \<Rightarrow> legs \<Rightarrow> nat option \<Rightarrow> real
     \<Rightarrow> rhino_state \<Rightarrow> bool" where
  "rhinoAt slerp bs l neck T st =
     (case timelines st of
        None \<Rightarrow> False
      | Some tls \<Rightarrow>
          legJoints tls = l
          \<and> bodyCore slerp bs neck T (pending tls, elapsed tls, world st)
          \<and> bodyNeck slerp bs neck T (world st))"

text \<open>A sample skeleton and a sample interpolation for the worked examples.\<close>

definition sampleBones :: "bone list" where
  "sampleBones =
     [\<lparr>bone_name = ''Root'', quaternion = (0, 0, 0, 1)\<rparr>,
      \<lparr>bone_name = ''Front_leg_1_L'', quaternion = (0, 0, 0, 1)\<rparr>,
      \<lparr>bone_name = ''Back_leg_1_L'', quaternion = (0, 0, 0, 1)\<rparr>,
      \<lparr>bone_name = ''Front_leg_1_R'', quaternion = (0, 0, 0, 1)\<rparr>,
      \<lparr>bone_name = ''Back_leg_1_R'', quaternion = (0, 0, 0, 1)\<rparr>,
      \<lparr>bone_name = ''Neck_mover_bone'', quaternion = (0, 1, 0, 0)\<rparr>]"

definition sampleLegs :: legs where
  "sampleLegs = \<lparr>frontLeg1L = 1, backLeg1L = 2, frontLeg1R = 3, backLeg1R = 4\<rparr>"

definition mix :: "quat \<Rightarrow> quat \<Rightarrow> real \<Rightarrow> quat" where
  "mix a b t =
     (case a of (ax, ay, az, aw) \<Rightarrow> (case b of (bx, by, bz, bw) \<Rightarrow>
        (ax + (bx - ax) * t, ay + (by - ay) * t, az + (bz - az) * t, aw + (bw - aw) * t)))"

section \<open>Properties of the ripple pass\<close>

subsection \<open>What the ripple loop writes\<close>

lemma rippleVertex_length: "length (rippleVertex t h orig i arr) = length arr"
  by (simp add: rippleVertex_def Let_def)

lemma rippleVertex_nth:
  "k < length arr \<Longrightarrow> rippleVertex t h orig i arr ! k =
     (if k div 3 = i then outAt t h orig k else arr ! k)"
proof -
  assume k: "k < length arr"
  have "k = i * 3 \<or> k = i * 3 + 1 \<or> k = i * 3 + 2 \<or> k div 3 \<noteq> i" by presburger
  then consider "k = i * 3" | "k = i * 3 + 1" | "k = i * 3 + 2" | "k div 3 \<noteq> i" by blast
  then show ?thesis
  proof cases
    case 1
    then show ?thesis using k
      by (simp add: rippleVertex_def Let_def outAt_def)
  next
    case 2
    have "(i * 3 + 1) div 3 = i" "(i * 3 + 1) mod 3 = 1" by presburger+
    then show ?thesis using k 2
      by (simp add: rippleVertex_def Let_def outAt_def waveOf_def)
  next
    case 3
    have "(i * 3 + 2) div 3 = i" "(i * 3 + 2) mod 3 = 2" by presburger+
    then show ?thesis using k 3
      by (simp add: rippleVertex_def Let_def outAt_def waveOf_def)
  next
    case 4
    then have "k \<noteq> i * 3" "k \<noteq> i * 3 + 1" "k \<noteq> i * 3 + 2" by presburger+
    then show ?thesis using k 4
      by (simp add: rippleVertex_def Let_def)
  qed
qed

lemma fold_ripple_length:
  "length (fold (rippleVertex t h orig) [0..<n] arr) = length arr"
  by (induction n) (simp_all add: rippleVertex_length)

lemma fold_ripple_nth:
  "k < length arr \<Longrightarrow> fold (rippleVertex t h orig) [0..<n] arr ! k =
     (if k div 3 < n then outAt t h orig k else arr ! k)"
proof (induction n)
  case 0
  then show ?case by simp
next
  case (Suc n)
  then show ?case
    by (auto simp: rippleVertex_nth fold_ripple_length less_Suc_eq)
qed

lemma fold_ripple_overwrites:
  "fold (rippleVertex t2 h2 orig) [0..<n] (fold (rippleVertex t1 h1 orig) [0..<n] arr)
     = fold (rippleVertex t2 h2 orig) [0..<n] arr"
  by (rule nth_equalityI) (simp_all add: fold_ripple_length fold_ripple_nth)

lemma rippleMesh_overwrites: "rippleMesh t2 h2 (rippleMesh t1 h1 m) = rippleMesh t2 h2 m"
  by (simp add: rippleMesh_def Let_def fold_ripple_overwrites split: option.splits)

lemma rippleMesh_keeps_cache:
  "originalPositions (geometry (rippleMesh t h m)) = originalPositions (geometry m)"
  by (simp add: rippleMesh_def Let_def split: option.splits)

lemma waveOf_Some: "waveOf t h (Some x) = Some (waveReal t h x)"
  by (simp add: waveOf_def waveReal_def num_mul_def num_add_def num_div_def num_min_def
      num_max_def num_sin_def num_lift2_def)

lemma vertex_SomeD:
  "vertex arr i = Some (x, y, z) \<Longrightarrow>
     rd arr (i * 3) = Some x \<and> rd arr (i * 3 + 1) = Some y \<and> rd arr (i * 3 + 2) = Some z"
  by (simp add: vertex_def split: option.splits)

lemma rippleMesh_vertex:
  assumes orig: "originalPositions (geometry m) = Some orig"
    and i: "i < pos_count (geometry m)"
    and len: "i * 3 + 2 < length (pos_array (geometry m))"
    and rest: "vertex orig i = Some (x, y, z)"
  shows "vertex (pos_array (geometry (rippleMesh t h m))) i
           = Some (x, y + waveReal t h x, z + waveReal t h x)"
proof -
  let ?arr = "fold (rippleVertex t h orig) [0..<pos_count (geometry m)] (pos_array (geometry m))"
  have arr: "pos_array (geometry (rippleMesh t h m)) = ?arr"
    using orig by (simp add: rippleMesh_def Let_def)
  have d: "(i * 3) div 3 = i" "(i * 3 + 1) div 3 = i" "(i * 3 + 2) div 3 = i"
    "(i * 3) mod 3 = 0" "(i * 3 + 1) mod 3 = 1" "(i * 3 + 2) mod 3 = 2"
    "Suc (i * 3) div 3 = i" "Suc (Suc (i * 3)) div 3 = i"
    "Suc (i * 3) mod 3 = 1" "Suc (Suc (i * 3)) mod 3 = 2"
    by presburger+
  have r: "rd orig (i * 3) = Some x" "rd orig (i * 3 + 1) = Some y" "rd orig (i * 3 + 2) = Some z"
    using vertex_SomeD [OF rest] by simp_all
  have l: "i * 3 < length ?arr" "i * 3 + 1 < length ?arr" "i * 3 + 2 < length ?arr"
    using len by (simp_all add: fold_ripple_length)
  have l0: "i * 3 < length (pos_array (geometry m))" "i * 3 + 1 < length (pos_array (geometry m))"
    using len by simp_all
  have x: "rd ?arr (i * 3) = Some x"
    using l(1) l0(1) i r by (simp add: rd_def [of ?arr] fold_ripple_nth d outAt_def)
  have y: "rd ?arr (i * 3 + 1) = Some (y + waveReal t h x)"
    using l(2) l0(2) i r
    by (simp add: rd_def [of ?arr] fold_ripple_nth d outAt_def waveOf_Some num_add_def
        num_lift2_def)
  have z: "rd ?arr (i * 3 + 2) = Some (z + waveReal t h x)"
    using l(3) len i r
    by (simp add: rd_def [of ?arr] fold_ripple_nth d outAt_def waveOf_Some num_add_def
        num_lift2_def)
  show ?thesis unfolding arr vertex_def using x y z by simp
qed

lemma waveReal_spec: "waveReal t ((15 / 100) * a) x = spec_wave x t a"
  by (simp add: waveReal_def spec_wave_def spec_edge_def clamp_def waveSpeed_def
      waveLength_def width_def)

lemma useFrame_targets:
  assumes "0 < waveStrength st" "flagRef st = Some p" "secondary st = Some q"
  shows "targets (useFrame t st)
           = map (map_option (rippleMesh t ((15 / 100) * waveStrength st))) (targets st)"
  using assms by (simp add: useFrame_def targets_def Let_def)

lemma targets_length: "length (targets st) = 5"
  by (simp add: targets_def)

subsection \<open>A bound on the sine of 4\<close>

lemma sum_lessThan_18:
  "(\<Sum>m<18. f m) = (f 0 + f 1 + f 2 + f 3 + f 4 + f 5 + f 6 + f 7 + f 8 + f 9 + f 10 + f 11
     + f 12 + f 13 + f 14 + f 15 + f 16 + f (17::nat) :: real)"
  by (simp add: lessThan_nat_numeral lessThan_Suc)

lemma sin_coeff_upto_17:
  "sin_coeff 0 = 0" "sin_coeff 1 = 1" "sin_coeff 2 = 0" "sin_coeff 3 = - 1 / 6"
  "sin_coeff 4 = 0" "sin_coeff 5 = 1 / 120" "sin_coeff 6 = 0" "sin_coeff 7 = - 1 / 5040"
  "sin_coeff 8 = 0" "sin_coeff 9 = 1 / 362880" "sin_coeff 10 = 0"
  "sin_coeff 11 = - 1 / 39916800" "sin_coeff 12 = 0" "sin_coeff 13 = 1 / 6227020800"
  "sin_coeff 14 = 0" "sin_coeff 15 = - 1 / 1307674368000" "sin_coeff 16 = 0"
  "sin_coeff 17 = 1 / 355687428096000"
  by (simp_all add: sin_coeff_def fact_numeral)

lemma sin_4_bounds: "- (75682 / 100000) < sin (4::real) \<and> sin (4::real) < - (75678 / 100000)"
proof -
  have s: "(\<Sum>m<18. sin_coeff m * (4::real) ^ m) = - 8214854708 / 10854718875"
    unfolding sum_lessThan_18 sin_coeff_upto_17 by simp
  have e: "inverse (fact 18) * \<bar>4::real\<bar> ^ 18 = 1048576 / 97692469875"
    by (simp add: fact_numeral)
  have "\<bar>sin (4::real) - (\<Sum>m<18. sin_coeff m * 4 ^ m)\<bar> \<le> inverse (fact 18) * \<bar>4\<bar> ^ 18"
    by (rule Maclaurin_sin_bound)
  then have b: "\<bar>sin (4::real) - (- 8214854708 / 10854718875)\<bar> \<le> 1048576 / 97692469875"
    unfolding s e .
  have lo: "- 8214854708 / 10854718875 - 1048576 / 97692469875 \<le> sin (4::real)"
    using b by linarith
  have hi: "sin (4::real) \<le> - 8214854708 / 10854718875 + 1048576 / 97692469875"
    using b by linarith
  have "- (75682 / 100000) < - 8214854708 / 10854718875 - 1048576 / (97692469875::real)"
    by simp
  moreover have "- 8214854708 / 10854718875 + 1048576 / 97692469875 < - (75678 / (100000::real))"
    by simp
  ultimately show ?thesis using lo hi by linarith
qed

lemma useFrame_waveStrength: "waveStrength (useFrame t st) = waveStrength st"
  by (simp add: useFrame_def Let_def split: option.splits)

lemma useFrame_targets_cong:
  assumes "targets a = targets b" "waveStrength a = waveStrength b"
  shows "targets (useFrame t a) = targets (useFrame t b)"
proof -
  have f: "flagRef a = flagRef b" "secondary a = secondary b" "tertiary a = tertiary b"
    "quaternary a = quaternary b" "quincenternary a = quincenternary b"
    using assms(1) by (simp_all add: targets_def)
  show ?thesis
    using assms(2) f by (simp add: useFrame_def targets_def Let_def split: option.splits)
qed

lemma useFrame_no_accumulation:
  "targets (useFrame t2 (useFrame t1 st)) = targets (useFrame t2 st)"
proof (cases "0 < waveStrength st \<and> flagRef st \<noteq> None \<and> secondary st \<noteq> None")
  case True
  then obtain p q where pq: "flagRef st = Some p" "secondary st = Some q" by auto
  have w: "0 < waveStrength st" using True by simp
  have 1: "targets (useFrame t1 st)
      = map (map_option (rippleMesh t1 ((15 / 100) * waveStrength st))) (targets st)"
    by (rule useFrame_targets [OF w pq])
  have "flagRef (useFrame t1 st) \<noteq> None" "secondary (useFrame t1 st) \<noteq> None"
    using w pq by (simp_all add: useFrame_def Let_def)
  then obtain p' q' where pq': "flagRef (useFrame t1 st) = Some p'"
    "secondary (useFrame t1 st) = Some q'" by auto
  have w': "0 < waveStrength (useFrame t1 st)" using w by (simp add: useFrame_waveStrength)
  have "targets (useFrame t2 (useFrame t1 st))
      = map (map_option (rippleMesh t2 ((15 / 100) * waveStrength st))) (targets (useFrame t1 st))"
    using useFrame_targets [OF w' pq', of t2] by (simp add: useFrame_waveStrength)
  also have "\<dots> = map (map_option (rippleMesh t2 ((15 / 100) * waveStrength st))) (targets st)"
    unfolding 1 by (simp add: option.map_comp comp_def rippleMesh_overwrites)
  also have "\<dots> = targets (useFrame t2 st)"
    by (rule useFrame_targets [OF w pq, symmetric])
  finally show ?thesis .
next
  case False
  then have "useFrame t1 st = st"
    by (auto simp: useFrame_def split: option.splits)
  then show ?thesis by simp
qed

lemma useFrame_repeat:
  "targets ((useFrame t ^^ Suc n) st) = targets (useFrame t st)
     \<and> waveStrength ((useFrame t ^^ Suc n) st) = waveStrength st"
proof (induction n)
  case 0
  then show ?case by (simp add: useFrame_waveStrength)
next
  case (Suc n)
  have "targets (useFrame t ((useFrame t ^^ Suc n) st)) = targets (useFrame t (useFrame t st))"
    using Suc by (intro useFrame_targets_cong) (simp_all add: useFrame_waveStrength)
  then show ?case using Suc
    by (simp add: useFrame_no_accumulation useFrame_waveStrength)
qed

lemma rippleMesh_x:
  assumes orig: "originalPositions (geometry m) = Some orig"
    and i: "i < pos_count (geometry m)"
    and len: "i * 3 < length (pos_array (geometry m))"
  shows "rd (pos_array (geometry (rippleMesh t h m))) (i * 3) = rd orig (i * 3)"
proof -
  have "pos_array (geometry (rippleMesh t h m))
      = fold (rippleVertex t h orig) [0..<pos_count (geometry m)] (pos_array (geometry m))"
    using orig by (simp add: rippleMesh_def Let_def)
  then show ?thesis using i len
    by (simp add: rd_def fold_ripple_length fold_ripple_nth outAt_def)
qed

text \<open>
  C10. The frame pass is idempotent for a fixed elapsed time: run once more, any number of
  times, it leaves the five targets as the first run left them. Displacement does not
  accumulate: a pass at \<open>t2\<close> after a pass at \<open>t1\<close> gives what the pass at \<open>t2\<close> alone
  gives, also for one mesh under any two amplitudes. The pass never writes the cached rest
  positions, which the setup copied from the position array, and it rewrites the \<open>x\<close>
  component of every vertex to its rest value.
\<close>

theorem ripple_pass_idempotent:
  "targets ((useFrame t ^^ Suc n) st) = targets (useFrame t st)
   \<and> targets (useFrame t2 (useFrame t1 st)) = targets (useFrame t2 st)
   \<and> rippleMesh t2 h2 (rippleMesh t1 h1 m) = rippleMesh t2 h2 m
   \<and> originalPositions (geometry (rippleMesh t h m)) = originalPositions (geometry m)
   \<and> (cacheMesh (Some m) = Inr m' \<longrightarrow> originalPositions (geometry m') = Some (pos_array (geometry m)))
   \<and> (originalPositions (geometry m) = Some orig \<and> i < pos_count (geometry m)
        \<and> i * 3 < length (pos_array (geometry m))
      \<longrightarrow> rd (pos_array (geometry (rippleMesh t h m))) (i * 3) = rd orig (i * 3))"
  using useFrame_repeat [where t = t and n = n and st = st]
    useFrame_no_accumulation [where ?t2.0 = t2 and ?t1.0 = t1 and st = st]
    rippleMesh_overwrites [where ?t2.0 = t2 and ?h2.0 = h2 and ?t1.0 = t1 and ?h1.0 = h1 and m = m]
    rippleMesh_keeps_cache [where t = t and h = h and m = m]
    rippleMesh_x [where m = m and orig = orig and i = i and t = t and h = h]
  by (auto simp: cacheMesh_def Let_def)

theorem ripple_pass_idempotent_witness:
  "cacheMesh (Some freeEdgeMesh) = Inr (cached freeEdgeMesh)
   \<and> originalPositions (geometry (cached freeEdgeMesh)) = Some (pos_array (geometry freeEdgeMesh))
   \<and> originalPositions (geometry freeEdgeMesh) = Some [Some 2, Some 0, Some 0]
   \<and> (0::nat) < pos_count (geometry freeEdgeMesh)
   \<and> 0 * 3 < length (pos_array (geometry freeEdgeMesh))
   \<and> rd (pos_array (geometry (rippleMesh 7 1 freeEdgeMesh))) (0 * 3) = Some 2
   \<and> targets ((useFrame 7 ^^ Suc 2) (wavingState freeEdgeMesh 1))
       = targets (useFrame 7 (wavingState freeEdgeMesh 1))"
proof -
  have c: "cacheMesh (Some freeEdgeMesh) = Inr (cached freeEdgeMesh)"
    by (simp add: cacheMesh_def cached_def Let_def)
  have o: "originalPositions (geometry freeEdgeMesh) = Some [Some 2, Some 0, Some 0]"
    by (simp add: freeEdgeMesh_def cached_def mkMesh_def)
  have n: "(0::nat) < pos_count (geometry freeEdgeMesh)"
    by (simp add: freeEdgeMesh_def cached_def mkMesh_def)
  have l: "0 * 3 < length (pos_array (geometry freeEdgeMesh))"
    by (simp add: freeEdgeMesh_def cached_def mkMesh_def)
  show ?thesis
    using ripple_pass_idempotent
      [where t = 7 and n = 2 and st = "wavingState freeEdgeMesh 1" and m = freeEdgeMesh
         and m' = "cached freeEdgeMesh" and h = 1 and orig = "[Some 2, Some 0, Some 0]" and i = 0]
      c o n l
    by (simp add: rd_def)
qed

text \<open>
  C8. In a frame where the amplitude \<open>waveStrength\<close> is not positive the callback returns
  at once: the whole state is the one before the frame, so no vertex buffer is written (it
  keeps the values of the last pass and is not zero-filled), no \<open>pos_needsUpdate\<close> flag is
  set and \<^verbatim>\<open>rippleMesh\<close> is not called.
\<close>

theorem frame_skipped_without_amplitude:
  "waveStrength st \<le> 0 \<Longrightarrow> useFrame t st = st"
  by (simp add: useFrame_def)

theorem frame_skipped_without_amplitude_witness:
  "waveStrength (wavingState twoVertexMesh 0) \<le> 0
   \<and> useFrame 3 (wavingState twoVertexMesh 0) = wavingState twoVertexMesh 0"
proof -
  have h: "waveStrength (wavingState twoVertexMesh 0) \<le> 0"
    by (simp add: wavingState_def)
  show ?thesis using h frame_skipped_without_amplitude [OF h, of 3] by simp
qed

lemma nth_map_option_Some:
  "k < length xs \<Longrightarrow> xs ! k = Some m \<Longrightarrow> map (map_option f) xs ! k = Some (f m)"
  by simp

text \<open>
  C1. In a frame that runs (positive amplitude \<open>waveStrength\<close>, both mandatory targets
  set), every vertex of every target whose rest position \<open>(x, y, z)\<close> is cached becomes
  \<open>displace (x, y, z) t waveStrength\<close>: with \<open>edge = clamp((x + 2) / 4, 0, 1)\<close> and
  \<open>wave = sin(t * 4.2 + x * 2.0) * (0.15 * waveStrength) * edge\<close> it is
  \<open>(x, y + wave, z + wave)\<close>. For the rest position \<open>(2, 0, 0)\<close>, \<open>t = 0\<close> and amplitude 1
  that is \<open>x' = 2\<close> and \<open>y' = z' = sin 4 * 0.15\<close>, which lies between \<open>-0.11353\<close> and
  \<open>-0.11351\<close>.
\<close>

theorem ripple_displacement:
  assumes amp: "0 < waveStrength st"
    and refs: "flagRef st = Some p" "secondary st = Some q"
    and target: "k < 5" "targets st ! k = Some m"
    and orig: "originalPositions (geometry m) = Some orig"
    and i: "i < pos_count (geometry m)" "i * 3 + 2 < length (pos_array (geometry m))"
    and rest: "vertex orig i = Some (x, y, z)"
  shows "(\<exists>m'. targets (useFrame t st) ! k = Some m'
            \<and> vertex (pos_array (geometry m')) i = Some (displace (x, y, z) t (waveStrength st)))
         \<and> displace (2, 0, 0) 0 1 = (2, sin 4 * (15 / 100), sin 4 * (15 / 100))
         \<and> - (11353 / 100000) < sin 4 * (15 / 100 :: real)
         \<and> sin 4 * (15 / 100 :: real) < - (11351 / 100000)"
proof -
  let ?h = "(15 / 100) * waveStrength st"
  have "targets (useFrame t st) ! k = Some (rippleMesh t ?h m)"
    unfolding useFrame_targets [OF amp refs]
    using target by (intro nth_map_option_Some) (simp_all add: targets_length)
  moreover have "vertex (pos_array (geometry (rippleMesh t ?h m))) i
      = Some (displace (x, y, z) t (waveStrength st))"
    using rippleMesh_vertex [OF orig i rest, of t ?h]
    unfolding displace_def waveReal_spec by simp
  moreover have "displace (2, 0, 0) 0 1 = (2, sin 4 * (15 / 100), sin 4 * (15 / 100))"
    by (simp add: displace_def spec_wave_def spec_edge_def clamp_def)
  moreover have "- (11353 / 100000) < sin 4 * (15 / 100 :: real)"
    "sin 4 * (15 / 100 :: real) < - (11351 / 100000)"
    using sin_4_bounds by simp_all
  ultimately show ?thesis by blast
qed

theorem ripple_displacement_witness:
  "0 < waveStrength (wavingState freeEdgeMesh 1)
   \<and> flagRef (wavingState freeEdgeMesh 1) = Some freeEdgeMesh
   \<and> secondary (wavingState freeEdgeMesh 1) = Some freeEdgeMesh
   \<and> (0::nat) < 5
   \<and> targets (wavingState freeEdgeMesh 1) ! 0 = Some freeEdgeMesh
   \<and> originalPositions (geometry freeEdgeMesh) = Some [Some 2, Some 0, Some 0]
   \<and> 0 < pos_count (geometry freeEdgeMesh)
   \<and> 0 * 3 + 2 < length (pos_array (geometry freeEdgeMesh))
   \<and> vertex [Some 2, Some 0, Some 0] 0 = Some (2, 0, 0)
   \<and> (\<exists>m'. targets (useFrame 0 (wavingState freeEdgeMesh 1)) ! 0 = Some m'
          \<and> vertex (pos_array (geometry m')) 0
              = Some (2, sin 4 * (15 / 100), sin 4 * (15 / 100)))"
proof -
  have amp: "0 < waveStrength (wavingState freeEdgeMesh 1)"
    by (simp add: wavingState_def)
  have refs: "flagRef (wavingState freeEdgeMesh 1) = Some freeEdgeMesh"
    "secondary (wavingState freeEdgeMesh 1) = Some freeEdgeMesh"
    by (simp_all add: wavingState_def)
  have target: "(0::nat) < 5" "targets (wavingState freeEdgeMesh 1) ! 0 = Some freeEdgeMesh"
    by (simp_all add: wavingState_def targets_def)
  have orig: "originalPositions (geometry freeEdgeMesh) = Some [Some 2, Some 0, Some 0]"
    by (simp add: freeEdgeMesh_def cached_def mkMesh_def)
  have i: "0 < pos_count (geometry freeEdgeMesh)"
    "0 * 3 + 2 < length (pos_array (geometry freeEdgeMesh))"
    by (simp_all add: freeEdgeMesh_def cached_def mkMesh_def)
  have rest: "vertex [Some 2, Some 0, Some 0] 0 = Some (2, 0, 0)"
    by (simp add: vertex_def rd_def)
  have w: "waveStrength (wavingState freeEdgeMesh 1) = 1"
    by (simp add: wavingState_def)
  obtain m' where m': "targets (useFrame 0 (wavingState freeEdgeMesh 1)) ! 0 = Some m'"
    "vertex (pos_array (geometry m')) 0 = Some (displace (2, 0, 0) 0 1)"
    and d: "displace (2, 0, 0) 0 1 = (2, sin 4 * (15 / 100), sin 4 * (15 / 100))"
    using ripple_displacement [OF amp refs target orig i rest, of 0] unfolding w by blast
  have "\<exists>m'. targets (useFrame 0 (wavingState freeEdgeMesh 1)) ! 0 = Some m'
          \<and> vertex (pos_array (geometry m')) 0
              = Some (2, sin 4 * (15 / 100), sin 4 * (15 / 100))"
    using m' unfolding d by blast
  then show ?thesis
    using amp refs target orig i rest by blast
qed





section \<open>Properties of the flag setup\<close>

subsection \<open>The classifier\<close>

lemma insort_cmp_byVertexCount:
  "insort_cmp byVertexCount x ys = insort_key (\<lambda>m. - int (vertexCount m)) x ys"
  by (induction ys) (simp_all add: byVertexCount_def vertexCount_def)

lemma js_sort_byVertexCount:
  "js_sort byVertexCount xs = sort_key (\<lambda>m. - int (vertexCount m)) xs"
  by (induction xs) (simp_all add: js_sort_def insort_cmp_byVertexCount)

lemma vertexCount_brighten: "vertexCount (brighten m) = vertexCount m"
  by (simp add: brighten_def vertexCount_def split: mesh_material.splits)

lemma collectAndSort_length: "length (collectAndSort meshes) = length meshes"
  by (simp add: collectAndSort_def js_sort_byVertexCount)

lemma selectTargets_nth: "k < 5 \<Longrightarrow> selectTargets dm ! k = nth_opt dm k"
proof -
  assume "k < 5"
  then have "k = 0 \<or> k = 1 \<or> k = 2 \<or> k = 3 \<or> k = 4" by linarith
  then show ?thesis
    by (elim disjE) (simp_all add: selectTargets_def)
qed

lemma selectTargets_eq:
  "selectTargets dm = map Some (take 5 dm) @ replicate (5 - length dm) None"
proof (rule nth_equalityI)
  show "length (selectTargets dm) = length (map Some (take 5 dm) @ replicate (5 - length dm) None)"
    by (simp add: selectTargets_def)
next
  fix k
  assume "k < length (selectTargets dm)"
  then have k: "k < 5" by (simp add: selectTargets_def)
  show "selectTargets dm ! k = (map Some (take 5 dm) @ replicate (5 - length dm) None) ! k"
    using k by (simp add: selectTargets_nth nth_opt_def nth_append)
qed

text \<open>
  C6. For a group of at least two meshes the sorted array \<^verbatim>\<open>deformMeshes\<close> holds the same
  meshes (brightening changes neither a name nor a vertex count), in descending order of
  vertex count, meshes of equal count in their input order; the five target variables are
  its first five elements, at least two and at most five of them, the slots beyond the
  length of the group being \<^verbatim>\<open>undefined\<close>. The result is determined: it is the only
  arrangement of the meshes that is descending and keeps ties in input order. (Whether the
  setup goes on to store these targets is another matter, that of C2.)
\<close>

theorem classifier_ranks_by_vertex_count:
  assumes "2 \<le> length meshes"
  shows "mset (collectAndSort meshes) = mset (map brighten meshes)
    \<and> map mesh_name (map brighten meshes) = map mesh_name meshes
    \<and> map vertexCount (map brighten meshes) = map vertexCount meshes
    \<and> sorted_wrt (\<lambda>a b. vertexCount a \<ge> vertexCount b) (collectAndSort meshes)
    \<and> (\<forall>n. filter (\<lambda>m. vertexCount m = n) (collectAndSort meshes)
            = filter (\<lambda>m. vertexCount m = n) (map brighten meshes))
    \<and> selectTargets (collectAndSort meshes)
        = map Some (take 5 (collectAndSort meshes)) @ replicate (5 - length meshes) None
    \<and> 2 \<le> length (take 5 (collectAndSort meshes))
    \<and> length (take 5 (collectAndSort meshes)) \<le> 5
    \<and> (\<forall>ys. mset ys = mset (map brighten meshes)
            \<and> sorted_wrt (\<lambda>a b. vertexCount a \<ge> vertexCount b) ys
            \<and> (\<forall>n. filter (\<lambda>m. vertexCount m = n) ys
                    = filter (\<lambda>m. vertexCount m = n) (map brighten meshes))
          \<longrightarrow> ys = collectAndSort meshes)"
proof -
  let ?f = "\<lambda>m. - int (vertexCount m)"
  let ?xs = "map brighten meshes"
  have cs: "collectAndSort meshes = sort_key ?f ?xs"
    by (simp add: collectAndSort_def js_sort_byVertexCount)
  have 1: "mset (collectAndSort meshes) = mset ?xs"
    unfolding cs by simp
  have 2: "map mesh_name ?xs = map mesh_name meshes"
    by (simp add: brighten_def split: mesh_material.splits)
  have 3: "map vertexCount ?xs = map vertexCount meshes"
    by (simp add: vertexCount_brighten)
  have "sorted (map ?f (collectAndSort meshes))"
    unfolding cs by simp
  then have 4: "sorted_wrt (\<lambda>a b. vertexCount a \<ge> vertexCount b) (collectAndSort meshes)"
    by (simp add: sorted_map)
  have 5: "filter (\<lambda>m. vertexCount m = n) (collectAndSort meshes)
      = filter (\<lambda>m. vertexCount m = n) ?xs" for n
    using sort_key_stable [of ?f "- int n" ?xs] unfolding cs by simp
  have 6: "selectTargets (collectAndSort meshes)
      = map Some (take 5 (collectAndSort meshes)) @ replicate (5 - length meshes) None"
    using selectTargets_eq [of "collectAndSort meshes"] by (simp add: collectAndSort_length)
  have 7: "2 \<le> length (take 5 (collectAndSort meshes))"
    "length (take 5 (collectAndSort meshes)) \<le> 5"
    using assms by (simp_all add: collectAndSort_length)
  have 8: "ys = collectAndSort meshes"
    if m: "mset ys = mset ?xs"
      and s: "sorted_wrt (\<lambda>a b. vertexCount a \<ge> vertexCount b) ys"
      and st: "\<forall>n. filter (\<lambda>m. vertexCount m = n) ys = filter (\<lambda>m. vertexCount m = n) ?xs"
    for ys
  proof -
    have "sort_key ?f ?xs = ys"
    proof (rule properties_for_sort_key [OF m])
      fix k
      show "filter (\<lambda>x. ?f k = ?f x) ys = filter (\<lambda>x. ?f k = ?f x) ?xs"
        using st [rule_format, of "vertexCount k"] by (simp add: eq_commute)
    next
      show "sorted (map ?f ys)" using s by (simp add: sorted_map)
    qed
    then show ?thesis unfolding cs by simp
  qed
  show ?thesis using 1 2 3 4 5 6 7 8 by blast
qed

lemma collectAndSort_sample:
  "collectAndSort sampleMeshes
     = [brighten (mkMesh ''b'' (flat 3)), brighten (mkMesh ''e'' (flat 3)),
        brighten (mkMesh ''d'' (flat 2)), brighten (mkMesh ''a'' (flat 1)),
        brighten (mkMesh ''c'' (flat 1)), brighten (mkMesh ''f'' (flat 0))]"
  by (simp add: collectAndSort_def js_sort_def sampleMeshes_def byVertexCount_def brighten_def
      mkMesh_def flat_def)

theorem classifier_ranks_by_vertex_count_witness:
  "2 \<le> length sampleMeshes
   \<and> map vertexCount sampleMeshes = [1, 3, 1, 2, 3, 0]
   \<and> map mesh_name (collectAndSort sampleMeshes) = [''b'', ''e'', ''d'', ''a'', ''c'', ''f'']
   \<and> map (map_option mesh_name) (selectTargets (collectAndSort sampleMeshes))
       = [Some ''b'', Some ''e'', Some ''d'', Some ''a'', Some ''c'']"
proof -
  have h: "2 \<le> length sampleMeshes" by (simp add: sampleMeshes_def)
  have v: "map vertexCount sampleMeshes = [1, 3, 1, 2, 3, 0]"
    by (simp add: sampleMeshes_def vertexCount_def mkMesh_def flat_def)
  have n: "map mesh_name (collectAndSort sampleMeshes) = [''b'', ''e'', ''d'', ''a'', ''c'', ''f'']"
    unfolding collectAndSort_sample by (simp add: brighten_def mkMesh_def)
  have "selectTargets (collectAndSort sampleMeshes)
      = map Some (take 5 (collectAndSort sampleMeshes)) @ replicate (5 - length sampleMeshes) None"
    using classifier_ranks_by_vertex_count [OF h] by blast
  then have "map (map_option mesh_name) (selectTargets (collectAndSort sampleMeshes))
       = map (map_option mesh_name) (map Some (take 5 (collectAndSort sampleMeshes))
            @ replicate (5 - length sampleMeshes) None)"
    by simp
  also have "\<dots> = [Some ''b'', Some ''e'', Some ''d'', Some ''a'', Some ''c'']"
    unfolding collectAndSort_sample by (simp add: sampleMeshes_def brighten_def mkMesh_def)
  finally show ?thesis using h v n by blast
qed

subsection \<open>Caching and the outcome of the setup\<close>

lemma cacheMesh_Some: "cacheMesh (Some m) = Inr (cached m)"
  by (simp add: cacheMesh_def cached_def Let_def)

lemma forEachCache_undefined: "None \<in> set xs \<Longrightarrow> forEachCache xs = Inl TypeError"
proof (induction xs)
  case Nil
  then show ?case by simp
next
  case (Cons mo xs)
  show ?case
  proof (cases mo)
    case None
    then show ?thesis by (simp add: cacheMesh_def)
  next
    case (Some m)
    then have "None \<in> set xs" using Cons.prems by simp
    then have "forEachCache xs = Inl TypeError" by (rule Cons.IH)
    then show ?thesis using Some by (simp add: cacheMesh_Some)
  qed
qed

lemma forEachCache_meshes: "forEachCache (map Some ms) = Inr (map cached ms)"
  by (induction ms) (simp_all add: cacheMesh_Some)

lemma selectTargets_mandatory:
  "2 \<le> length dm \<Longrightarrow> selectTargets dm ! 0 \<noteq> None \<and> selectTargets dm ! 1 \<noteq> None"
  by (auto simp: selectTargets_def nth_opt_def)

lemma selectTargets_too_few:
  "length dm < 2 \<Longrightarrow> selectTargets dm ! 0 = None \<or> selectTargets dm ! 1 = None"
  by (auto simp: selectTargets_def nth_opt_def)

lemma flagSetup_throws:
  assumes "2 \<le> length meshes" "length meshes < 5"
  shows "flagSetup True (Some meshes) st = Inl TypeError"
proof -
  let ?dm = "collectAndSort meshes"
  have l: "length ?dm = length meshes" by (rule collectAndSort_length)
  have "selectTargets ?dm = map Some (take 5 ?dm) @ replicate (5 - length ?dm) None"
    by (rule selectTargets_eq)
  moreover have "0 < 5 - length ?dm" using assms(2) l by simp
  ultimately have "None \<in> set (selectTargets ?dm)" by simp
  then have "forEachCache (selectTargets ?dm) = Inl TypeError"
    by (rule forEachCache_undefined)
  moreover have "selectTargets ?dm ! 0 \<noteq> None \<and> selectTargets ?dm ! 1 \<noteq> None"
    using assms(1) l by (intro selectTargets_mandatory) simp
  ultimately show ?thesis
    by (simp add: flagSetup_def Let_def)
qed

lemma flagSetup_completes:
  assumes "5 \<le> length meshes"
  shows "\<exists>st'. flagSetup True (Some meshes) st = Inr st'
      \<and> targets st' = map (\<lambda>m. Some (cached m)) (take 5 (collectAndSort meshes))
      \<and> phase st' = Rotating 0 \<and> waveStrength st' = waveStrength st
      \<and> isClickable st' = isClickable st \<and> rippleCalls st' = rippleCalls st
      \<and> href st' = href st"
proof -
  let ?dm = "collectAndSort meshes"
  have l: "length ?dm = length meshes" by (rule collectAndSort_length)
  have sel: "selectTargets ?dm = map Some (take 5 ?dm)"
    using selectTargets_eq [of ?dm] assms l by simp
  have c: "forEachCache (selectTargets ?dm) = Inr (map cached (take 5 ?dm))"
    unfolding sel by (rule forEachCache_meshes)
  have m: "selectTargets ?dm ! 0 \<noteq> None \<and> selectTargets ?dm ! 1 \<noteq> None"
    using assms l by (intro selectTargets_mandatory) simp
  have len: "length (map cached (take 5 ?dm)) = 5" using assms l by simp
  have n: "[nth_opt cs 0, nth_opt cs 1, nth_opt cs 2, nth_opt cs 3, nth_opt cs 4]
      = map Some cs" if "length cs = 5" for cs :: "mesh list"
    using that selectTargets_eq [of cs] by (simp add: selectTargets_def)
  show ?thesis
    using m c n [OF len]
    by (auto simp: flagSetup_def Let_def targets_def comp_def)
qed

text \<open>
  C2. Setup does not complete for every group of at least two meshes. The caching loop
  goes through all five target
  variables, and reading \<^verbatim>\<open>geometry\<close> of an \<^verbatim>\<open>undefined\<close> one throws: for a group of two,
  three or four meshes the setup ends in a TypeError, after the mandatory targets have been
  cached and before any reference is stored or the intro animation started. Only from five
  meshes on does the setup complete, with normals computed and rest positions copied for
  all five targets before any frame has rippled them.
\<close>

theorem setup_needs_five_meshes:
  "(2 \<le> length meshes \<and> length meshes < 5
      \<longrightarrow> flagSetup True (Some meshes) flagInit = Inl TypeError)
   \<and> (5 \<le> length meshes
      \<longrightarrow> (\<exists>st'. flagSetup True (Some meshes) flagInit = Inr st'
            \<and> targets st' = map (\<lambda>m. Some (cached m)) (take 5 (collectAndSort meshes))
            \<and> phase st' = Rotating 0 \<and> rippleCalls st' = 0))"
  using flagSetup_throws [of meshes flagInit] flagSetup_completes [of meshes flagInit]
  by (auto simp: flagInit_def)

lemma flagSetup_sample: "flagSetup True (Some sampleMeshes) flagInit = Inr readyState"
proof -
  have sel: "selectTargets (collectAndSort sampleMeshes)
      = map Some (take 5 (collectAndSort sampleMeshes))"
    using selectTargets_eq [of "collectAndSort sampleMeshes"]
    by (simp add: collectAndSort_length sampleMeshes_def)
  have c: "forEachCache (selectTargets (collectAndSort sampleMeshes))
      = Inr (map cached (take 5 (collectAndSort sampleMeshes)))"
    unfolding sel by (rule forEachCache_meshes)
  have m: "selectTargets (collectAndSort sampleMeshes) ! 0 \<noteq> None
      \<and> selectTargets (collectAndSort sampleMeshes) ! 1 \<noteq> None"
    by (intro selectTargets_mandatory) (simp add: collectAndSort_length sampleMeshes_def)
  let ?cs = "map cached (take 5 (collectAndSort sampleMeshes))"
  have "flagSetup True (Some sampleMeshes) flagInit
      = Inr (flagInit\<lparr>flagRef := nth_opt ?cs 0, secondary := nth_opt ?cs 1,
               tertiary := nth_opt ?cs 2, quaternary := nth_opt ?cs 3,
               quincenternary := nth_opt ?cs 4, phase := Rotating 0\<rparr>)"
    using m c by (auto simp: flagSetup_def Let_def)
  then show ?thesis
    unfolding collectAndSort_sample by (simp add: nth_opt_def readyState_def)
qed

theorem setup_needs_five_meshes_witness:
  "2 \<le> length (take 2 sampleMeshes) \<and> length (take 2 sampleMeshes) < 5
   \<and> flagSetup True (Some (take 2 sampleMeshes)) flagInit = Inl TypeError
   \<and> 5 \<le> length sampleMeshes
   \<and> (\<exists>st'. flagSetup True (Some sampleMeshes) flagInit = Inr st' \<and> phase st' = Rotating 0)"
proof -
  have a: "2 \<le> length (take 2 sampleMeshes) \<and> length (take 2 sampleMeshes) < 5"
    by (simp add: sampleMeshes_def)
  have b: "5 \<le> length sampleMeshes" by (simp add: sampleMeshes_def)
  show ?thesis
    using setup_needs_five_meshes [of "take 2 sampleMeshes"]
      setup_needs_five_meshes [of sampleMeshes] a b
    by blast
qed

subsection \<open>A group with too few meshes\<close>

lemma static_step: "static st \<Longrightarrow> static (flagStep ev st)"
  by (cases ev)
    (simp_all add: static_def flagTick_def useFrame_def onClick_def onPointerOver_def
      onPointerOut_def message_console_def Let_def)

lemma static_run: "static st \<Longrightarrow> static (flagRun evs st)"
  unfolding flagRun_def by (induction evs arbitrary: st) (simp_all add: static_step)

text \<open>
  C5. For a group with fewer than two meshes the setup logs its warning and returns with
  nothing stored and no animation started; whatever happens afterwards (ticks, frames,
  pointer events), \<^verbatim>\<open>rippleMesh\<close> is never called and no target is ever set.
\<close>

theorem too_few_meshes_never_ripple:
  assumes "length meshes < 2"
  shows "flagSetup True (Some meshes) flagInit
           = Inr (warn ''Not enough deformable meshes found'' flagInit)
     \<and> warnings (warn ''Not enough deformable meshes found'' flagInit)
           = [''Not enough deformable meshes found'']
     \<and> (\<forall>evs. rippleCalls (flagRun evs (warn ''Not enough deformable meshes found'' flagInit)) = 0
             \<and> targets (flagRun evs (warn ''Not enough deformable meshes found'' flagInit))
                 = [None, None, None, None, None])"
proof -
  let ?st = "warn ''Not enough deformable meshes found'' flagInit"
  have "selectTargets (collectAndSort meshes) ! 0 = None
      \<or> selectTargets (collectAndSort meshes) ! 1 = None"
    using assms by (intro selectTargets_too_few) (simp add: collectAndSort_length)
  then have 1: "flagSetup True (Some meshes) flagInit = Inr ?st"
    by (auto simp: flagSetup_def Let_def)
  have 2: "warnings ?st = [''Not enough deformable meshes found'']"
    by (simp add: warn_def flagInit_def)
  have "static ?st" by (simp add: static_def warn_def flagInit_def)
  then have "static (flagRun evs ?st)" for evs by (rule static_run)
  then have 3: "rippleCalls (flagRun evs ?st) = 0
      \<and> targets (flagRun evs ?st) = [None, None, None, None, None]" for evs
    by (simp add: static_def targets_def)
  show ?thesis using 1 2 3 by blast
qed

theorem too_few_meshes_never_ripple_witness:
  "length [mkMesh ''a'' (flat 1)] < 2
   \<and> flagSetup True (Some [mkMesh ''a'' (flat 1)]) flagInit
       = Inr (warn ''Not enough deformable meshes found'' flagInit)
   \<and> rippleCalls (flagRun [Tick 4, Frame 4, Tick 1, Frame 5, Click]
        (warn ''Not enough deformable meshes found'' flagInit)) = 0"
proof -
  have h: "length [mkMesh ''a'' (flat 1)] < 2" by simp
  show ?thesis
    using too_few_meshes_never_ripple [OF h] h by blast
qed

subsection \<open>The intro animation and the pointer handlers\<close>

lemma rotatingInv_tick: "rotatingInv st \<Longrightarrow> rotatingInv (flagTick dt st)"
  by (cases "phase st") (simp_all add: rotatingInv_def flagTick_def)

lemma useFrame_intro:
  "phase (useFrame t st) = phase st" "isClickable (useFrame t st) = isClickable st"
  by (simp_all add: useFrame_def Let_def split: option.splits)

lemma onPointerOver_intro:
  "phase (onPointerOver st) = phase st" "isClickable (onPointerOver st) = isClickable st"
  "waveStrength (onPointerOver st) = waveStrength st"
  by (simp_all add: onPointerOver_def message_console_def Let_def split: option.splits)

lemma rotatingInv_step: "rotatingInv st \<Longrightarrow> rotatingInv (flagStep ev st)"
proof (cases ev)
  case (Tick dt)
  assume "rotatingInv st"
  then show ?thesis using Tick by (simp add: rotatingInv_tick)
next
  case (Frame t)
  assume "rotatingInv st"
  then show ?thesis using Frame
    by (simp add: rotatingInv_def useFrame_intro useFrame_waveStrength split: flag_phase.splits)
next
  case Click
  assume "rotatingInv st"
  then show ?thesis using Click
    by (simp add: rotatingInv_def onClick_def split: flag_phase.splits)
next
  case PointerOver
  assume "rotatingInv st"
  then show ?thesis using PointerOver
    by (simp add: rotatingInv_def onPointerOver_intro split: flag_phase.splits)
next
  case PointerOut
  assume "rotatingInv st"
  then show ?thesis using PointerOut
    by (simp add: rotatingInv_def onPointerOut_def split: flag_phase.splits)
qed

lemma rotatingInv_run: "rotatingInv st \<Longrightarrow> rotatingInv (flagRun evs st)"
  unfolding flagRun_def
  by (induction evs arbitrary: st) (simp_all add: rotatingInv_step)

lemma sample_group: "5 \<le> length sampleMeshes"
  by (simp add: sampleMeshes_def)

text \<open>
  C3. The click handler does not wait for the interactive state. After a setup that
  started the intro animation, and after any run of ticks, frames and pointer events that
  leaves the rotation tween still running, the decay tween has not even begun,
  \<open>isClickable\<close> is false and the amplitude is still 0; the handler, which tests the
  amplitude only and never reads \<open>isClickable\<close>, navigates on a click.
\<close>

theorem click_navigates_while_rotating:
  assumes grp: "5 \<le> length meshes"
    and ok: "flagSetup True (Some meshes) flagInit = Inr st0"
    and rot: "phase (flagRun evs st0) = Rotating e"
  shows "\<not> isClickable (flagRun evs st0)
    \<and> waveStrength (flagRun evs st0) = 0
    \<and> href (onClick (flagRun evs st0)) = Some siteUrl"
proof -
  obtain st' where st': "flagSetup True (Some meshes) flagInit = Inr st'"
    "phase st' = Rotating 0" "waveStrength st' = waveStrength flagInit"
    "isClickable st' = isClickable flagInit"
    using flagSetup_completes [OF grp, of flagInit] by blast
  have eq: "st' = st0" using st'(1) ok by simp
  have "phase st0 = Rotating 0" "waveStrength st0 = 0" "\<not> isClickable st0"
    using st'(2-4) unfolding eq by (simp_all add: flagInit_def)
  then have "rotatingInv st0" by (simp add: rotatingInv_def)
  then have "rotatingInv (flagRun evs st0)" by (rule rotatingInv_run)
  then have "waveStrength (flagRun evs st0) = 0 \<and> \<not> isClickable (flagRun evs st0)"
    using rot by (simp add: rotatingInv_def)
  then show ?thesis by (simp add: onClick_def)
qed

theorem click_navigates_while_rotating_witness:
  "5 \<le> length sampleMeshes
   \<and> flagSetup True (Some sampleMeshes) flagInit = Inr readyState
   \<and> href readyState = None
   \<and> phase (flagRun [Tick 1] readyState) = Rotating 1
   \<and> \<not> isClickable (flagRun [Tick 1] readyState)
   \<and> href (flagRun [Tick 1, Click] readyState) = Some siteUrl"
proof -
  have h: "href readyState = None" by (simp add: readyState_def flagInit_def)
  have p: "phase (flagRun [Tick 1] readyState) = Rotating 1"
    by (simp add: flagRun_def flagTick_def readyState_def flagInit_def)
  have r: "flagRun [Tick 1, Click] readyState = onClick (flagRun [Tick 1] readyState)"
    by (simp add: flagRun_def)
  show ?thesis
    using click_navigates_while_rotating [OF sample_group flagSetup_sample p]
      sample_group flagSetup_sample h p
    unfolding r by blast
qed

section \<open>Properties of the mascot\<close>

subsection \<open>Resolving joints by name\<close>

lemma collect_fold_Some:
  "fold (\<lambda>i found. found(bone_name (bs ! i) \<mapsto> i)) [0..<k] m name = Some i
     \<Longrightarrow> (i < k \<and> bone_name (bs ! i) = name) \<or> m name = Some i"
proof (induction k arbitrary: i)
  case 0
  then show ?case by simp
next
  case (Suc k)
  let ?f = "\<lambda>i found. found(bone_name (bs ! i) \<mapsto> i)"
  have step: "fold ?f [0..<Suc k] m = (fold ?f [0..<k] m)(bone_name (bs ! k) \<mapsto> k)"
    by simp
  have upd: "((fold ?f [0..<k] m)(bone_name (bs ! k) \<mapsto> k)) name = Some i"
    using Suc.prems unfolding step .
  show ?case
  proof (cases "bone_name (bs ! k) = name")
    case True
    then have "i = k" using upd by simp
    then show ?thesis using True by simp
  next
    case False
    have "((fold ?f [0..<k] m)(bone_name (bs ! k) \<mapsto> k)) name = fold ?f [0..<k] m name"
      using False by (intro fun_upd_other) simp
    then have "fold ?f [0..<k] m name = Some i"
      using upd by (simp only:)
    then have "(i < k \<and> bone_name (bs ! i) = name) \<or> m name = Some i"
      by (rule Suc.IH)
    then show ?thesis using less_Suc_eq by blast
  qed
qed

lemma collectBones_Some:
  "collectBones bs name = Some i \<Longrightarrow> i < length bs \<and> bone_name (bs ! i) = name"
  using collect_fold_Some [of bs "length bs" Map.empty name i]
  by (simp add: collectBones_def)

lemma collectBones_distinct:
  "collectBones bs a = Some i \<Longrightarrow> collectBones bs b = Some j \<Longrightarrow> a \<noteq> b \<Longrightarrow> i \<noteq> j"
  using collectBones_Some by blast

subsection \<open>What the leg timeline leaves alone\<close>

lemma setQuaternion_keeps:
  "position_x (setQuaternion i q w) = position_x w"
  "legPaused (setQuaternion i q w) = legPaused w"
  "legStarts (setQuaternion i q w) = legStarts w"
  "legStops (setQuaternion i q w) = legStops w"
  "length (bones (setQuaternion i q w)) = length (bones w)"
  by (simp_all add: setQuaternion_def)

lemma setQuaternion_other:
  "n \<noteq> i \<Longrightarrow> quaternion (bones (setQuaternion i q w) ! n) = quaternion (bones w ! n)"
  by (simp add: setQuaternion_def)

lemma setQuaternion_same:
  "n < length (bones w) \<Longrightarrow> quaternion (bones (setQuaternion n q w) ! n) = q"
  by (simp add: setQuaternion_def)

lemma legAdvance_keeps:
  "position_x (legAdvance slerp l dt w) = position_x w"
  "legPaused (legAdvance slerp l dt w) = legPaused w"
  "legStarts (legAdvance slerp l dt w) = legStarts w"
  "legStops (legAdvance slerp l dt w) = legStops w"
  "length (bones (legAdvance slerp l dt w)) = length (bones w)"
  by (simp_all add: legAdvance_def legUpdate1_def legUpdate2_def Let_def setQuaternion_keeps)

lemma legAdvance_other:
  "n \<notin> legSet l \<Longrightarrow>
     quaternion (bones (legAdvance slerp l dt w) ! n) = quaternion (bones w ! n)"
  by (simp add: legAdvance_def legUpdate1_def legUpdate2_def Let_def setQuaternion_other
      legSet_def setQuaternion_def)

subsection \<open>The body timeline, phase by phase\<close>

lemma ease_start: "easeAt Power2InOut 0 = 0" "easeAt Power2Out 0 = 0"
  by (simp_all add: easeAt_def)

lemma look_phase:
  assumes T: "9 \<le> T" and dt: "0 \<le> dt"
    and core: "bodyCore slerp bs neck T (p, e, w)"
    and nk: "9 < T \<Longrightarrow> bodyNeck slerp bs neck T w"
    and valid: "\<And>n. neck = Some n \<Longrightarrow> n < length bs"
  shows "bodyCore slerp bs neck (T + dt) (advance p e dt w)
     \<and> bodyNeck slerp bs neck (T + dt) (snd (snd (advance p e dt w)))"
proof -
  have p: "p = bodyPending slerp bs neck T" and e: "e = bodyElapsed neck T"
    and obs: "legPaused w" "legStarts w = 1" "legStops w = 1" "position_x w = - (95 / 10)"
      "length (bones w) = length bs"
    using T core
    by (simp_all add: bodyCore_def legPausedAt_def legStartsAt_def legStopsAt_def
        positionAt_def)
  show ?thesis
  proof (cases neck)
    case None
    then show ?thesis unfolding p e using T dt obs
      by (simp add: bodyCore_def bodyNeck_def bodyPending_def bodyElapsed_def lookAtSteps_def
          legPausedAt_def legStartsAt_def legStopsAt_def positionAt_def)
  next
    case (Some n)
    have n: "n < length (bones w)" using valid [OF Some] obs by simp
    show ?thesis
    proof (cases "T < 9 + 18 / 10")
      case True
      have pe: "bodyPending slerp bs neck T
          = [Tween (18 / 10) Power2Out
               (\<lambda>t. setQuaternion n (slerp (quaternion (bs ! n)) lookAtViewerQuat t))]"
        "bodyElapsed neck T = T - 9"
        using T True Some by (simp_all add: bodyPending_def bodyElapsed_def lookAtSteps_def)
      have a: "T - 9 + dt = T + dt - 9" by simp
      show ?thesis
      proof (cases "T + dt < 9 + 18 / 10")
        case True
        then have "T + dt - 9 < 18 / 10" by simp
        then show ?thesis unfolding p e pe using T dt obs Some n True
          by (simp add: a bodyCore_def bodyNeck_def bodyPending_def bodyElapsed_def
              lookAtSteps_def legPausedAt_def legStartsAt_def legStopsAt_def positionAt_def
              neckAt_def setQuaternion_keeps setQuaternion_same)
      next
        case False
        then have "\<not> T + dt - 9 < 18 / 10" by simp
        then show ?thesis unfolding p e pe using T dt obs Some n False
          by (simp add: a bodyCore_def bodyNeck_def bodyPending_def bodyElapsed_def
              lookAtSteps_def legPausedAt_def legStartsAt_def legStopsAt_def positionAt_def
              neckAt_def setQuaternion_keeps setQuaternion_same)
      qed
    next
      case False
      then have "9 < T" by simp
      then have "bodyNeck slerp bs neck T w" by (rule nk)
      then show ?thesis unfolding p e using T dt obs Some False
        by (simp add: bodyCore_def bodyNeck_def bodyPending_def bodyElapsed_def
            legPausedAt_def legStartsAt_def legStopsAt_def positionAt_def neckAt_def)
    qed
  qed
qed

lemma walk_phase:
  assumes T: "5 \<le> T" "T < 9" and dt: "0 \<le> dt"
    and core: "bodyCore slerp bs neck T (p, e, w)"
    and nk: "bodyNeck slerp bs neck T w"
    and valid: "\<And>n. neck = Some n \<Longrightarrow> n < length bs"
  shows "bodyCore slerp bs neck (T + dt) (advance p e dt w)
     \<and> bodyNeck slerp bs neck (T + dt) (snd (snd (advance p e dt w)))"
proof (cases "T + dt < 9")
  case True
  have p: "p = Tween 4 Power2InOut (\<lambda>p w. w\<lparr>position_x := - 15 + (- (95 / 10) - (- 15)) * p\<rparr>)
      # Call legPause # lookAtSteps slerp bs neck" and e: "e = T - 5"
    and obs: "\<not> legPaused w" "legStarts w = 1" "legStops w = 0"
      "length (bones w) = length bs"
    using T core
    by (simp_all add: bodyCore_def bodyPending_def bodyElapsed_def walkSteps_def
        legPausedAt_def legStartsAt_def legStopsAt_def)
  have a: "T - 5 + dt = T + dt - 5" by simp
  have lt: "T + dt - 5 < 4" using True by simp
  show ?thesis unfolding p e using T dt obs nk True lt
    by (simp add: a bodyCore_def bodyNeck_def bodyPending_def bodyElapsed_def walkSteps_def
        legPausedAt_def legStartsAt_def legStopsAt_def positionAt_def neckAt_def
        split: option.splits)
next
  case False
  let ?w = "legPause (w\<lparr>position_x := - 15 + (- (95 / 10) - (- 15)) * 1\<rparr>)"
  let ?look = "lookAtSteps slerp bs neck"
  have p: "p = Tween 4 Power2InOut (\<lambda>p w. w\<lparr>position_x := - 15 + (- (95 / 10) - (- 15)) * p\<rparr>)
      # Call legPause # ?look" and e: "e = T - 5"
    using T core by (simp_all add: bodyCore_def bodyPending_def bodyElapsed_def walkSteps_def)
  have a: "T - 5 + dt - 4 = T + dt - 9" "\<not> T - 5 + dt < 4" using False by simp_all
  have adv: "advance p e dt w = advance ?look 0 (T + dt - 9) ?w"
    unfolding p e by (simp add: a)
  have c9: "bodyCore slerp bs neck 9 (?look, 0, ?w)"
    using T core
    by (simp add: bodyCore_def bodyPending_def bodyElapsed_def legPause_def
        legPausedAt_def legStartsAt_def legStopsAt_def positionAt_def)
  have "bodyCore slerp bs neck (9 + (T + dt - 9)) (advance ?look 0 (T + dt - 9) ?w)
     \<and> bodyNeck slerp bs neck (9 + (T + dt - 9)) (snd (snd (advance ?look 0 (T + dt - 9) ?w)))"
    using False by (intro look_phase [OF _ _ c9] valid) simp_all
  then show ?thesis unfolding adv by simp
qed

lemma wait_phase:
  assumes T: "T < 5" and dt: "0 \<le> dt"
    and core: "bodyCore slerp bs neck T (p, e, w)"
    and nk: "bodyNeck slerp bs neck T w"
    and valid: "\<And>n. neck = Some n \<Longrightarrow> n < length bs"
  shows "bodyCore slerp bs neck (T + dt) (advance p e dt w)
     \<and> bodyNeck slerp bs neck (T + dt) (snd (snd (advance p e dt w)))"
proof (cases "T + dt < 5")
  case True
  then show ?thesis using T dt core nk
    by (simp add: bodyCore_def bodyNeck_def bodyPending_def bodyElapsed_def walkSteps_def
        legPausedAt_def legStartsAt_def legStopsAt_def positionAt_def neckAt_def
        split: option.splits)
next
  case False
  let ?rest = "drop 2 walkSteps @ lookAtSteps slerp bs neck"
  have p: "p = Wait 5 # Call legPlay # ?rest" and e: "e = T"
    using T core by (simp_all add: bodyCore_def bodyPending_def bodyElapsed_def walkSteps_def)
  have adv: "advance p e dt w = advance ?rest 0 (T + dt - 5) (legPlay w)"
    unfolding p e using False by simp
  have c5: "bodyCore slerp bs neck 5 (?rest, 0, legPlay w)"
    using T core
    by (simp add: bodyCore_def bodyPending_def bodyElapsed_def legPlay_def
        legPausedAt_def legStartsAt_def legStopsAt_def positionAt_def ease_start)
  have n5: "bodyNeck slerp bs neck 5 (legPlay w)"
    using T nk by (simp add: bodyNeck_def legPlay_def neckAt_def split: option.splits)
  have "bodyCore slerp bs neck (5 + (T + dt - 5)) (advance ?rest 0 (T + dt - 5) (legPlay w))
     \<and> bodyNeck slerp bs neck (5 + (T + dt - 5))
         (snd (snd (advance ?rest 0 (T + dt - 5) (legPlay w))))"
    using False by (intro walk_phase [OF _ _ _ c5 n5] valid) simp_all
  then show ?thesis unfolding adv by simp
qed

lemma advance_matches:
  assumes dt: "0 \<le> dt"
    and core: "bodyCore slerp bs neck T (p, e, w)"
    and nk: "bodyNeck slerp bs neck T w"
    and valid: "\<And>n. neck = Some n \<Longrightarrow> n < length bs"
  shows "bodyCore slerp bs neck (T + dt) (advance p e dt w)
     \<and> bodyNeck slerp bs neck (T + dt) (snd (snd (advance p e dt w)))"
proof -
  consider "T < 5" | "5 \<le> T" "T < 9" | "9 \<le> T" by linarith
  then show ?thesis
  proof cases
    case 1
    then show ?thesis by (rule wait_phase [OF _ dt core nk valid])
  next
    case 2
    then show ?thesis by (rule walk_phase [OF _ _ dt core nk valid])
  next
    case 3
    then show ?thesis by (rule look_phase [OF _ dt core nk valid])
  qed
qed

subsection \<open>Ticks and runs of a mounted mascot\<close>

lemma rhinoTick_matches:
  assumes at: "rhinoAt slerp bs l neck T st" and dt: "0 \<le> dt"
    and valid: "\<And>n. neck = Some n \<Longrightarrow> n < length bs \<and> n \<notin> legSet l"
  shows "rhinoAt slerp bs l neck (T + dt) (rhinoTick slerp dt st)"
proof -
  obtain tls where tls: "timelines st = Some tls" "legJoints tls = l"
    and core: "bodyCore slerp bs neck T (pending tls, elapsed tls, world st)"
    and nk: "bodyNeck slerp bs neck T (world st)"
    using at by (auto simp: rhinoAt_def split: option.splits)
  let ?w1 = "if legPaused (world st) then world st else legAdvance slerp l dt (world st)"
  have core1: "bodyCore slerp bs neck T (pending tls, elapsed tls, ?w1)"
    using core by (simp add: bodyCore_def legAdvance_keeps)
  have nk1: "bodyNeck slerp bs neck T ?w1"
    using nk valid by (auto simp: bodyNeck_def legAdvance_other split: option.splits)
  have v: "\<And>n. neck = Some n \<Longrightarrow> n < length bs" using valid by blast
  obtain p' e' w2 where adv: "advance (pending tls) (elapsed tls) dt ?w1 = (p', e', w2)"
    by (cases "advance (pending tls) (elapsed tls) dt ?w1") auto
  have "bodyCore slerp bs neck (T + dt) (p', e', w2) \<and> bodyNeck slerp bs neck (T + dt) w2"
    using advance_matches [OF dt core1 nk1 v] unfolding adv by simp
  moreover have "rhinoTick slerp dt st
      = st\<lparr>world := w2, timelines := Some (tls\<lparr>pending := p', elapsed := e'\<rparr>)\<rparr>"
    using tls adv by (cases "legPaused (world st)") (simp_all add: rhinoTick_def Let_def)
  ultimately show ?thesis using tls by (simp add: rhinoAt_def)
qed

lemma rhinoRun_matches:
  assumes "rhinoAt slerp bs l neck T st" "\<forall>dt\<in>set dts. 0 \<le> dt"
    and valid: "\<And>n. neck = Some n \<Longrightarrow> n < length bs \<and> n \<notin> legSet l"
  shows "rhinoAt slerp bs l neck (T + sum_list dts) (rhinoRun slerp dts st)"
  using assms(1,2)
proof (induction dts arbitrary: T st)
  case Nil
  then show ?case by (simp add: rhinoRun_def)
next
  case (Cons dt dts)
  have "rhinoAt slerp bs l neck (T + dt) (rhinoTick slerp dt st)"
    using Cons.prems by (intro rhinoTick_matches valid) simp_all
  then have "rhinoAt slerp bs l neck (T + dt + sum_list dts)
      (rhinoRun slerp dts (rhinoTick slerp dt st))"
    using Cons.prems by (intro Cons.IH) simp_all
  then show ?case by (simp add: rhinoRun_def add.assoc)
qed

lemma rhinoRun_static:
  "timelines st = None \<Longrightarrow> rhinoRun slerp dts st = st"
  unfolding rhinoRun_def by (induction dts) (simp_all add: rhinoTick_def)

subsection \<open>The outcome of the mascot's setup\<close>

lemma rhinoSetup_resolved:
  assumes "collectBones bs ''Front_leg_1_L'' = Some fl"
    "collectBones bs ''Back_leg_1_L'' = Some bl"
    "collectBones bs ''Front_leg_1_R'' = Some fr"
    "collectBones bs ''Back_leg_1_R'' = Some br"
  shows "timelines (rhinoSetup slerp True (rhinoInit bs))
      = Some \<lparr>legJoints = \<lparr>frontLeg1L = fl, backLeg1L = bl, frontLeg1R = fr, backLeg1R = br\<rparr>,
              pending = walkSteps
                @ lookAtSteps slerp bs (collectBones bs ''Neck_mover_bone''),
              elapsed = 0\<rparr>"
    and "rhino_warnings (rhinoSetup slerp True (rhinoInit bs))
      = (if collectBones bs ''Neck_mover_bone'' = None then [''Neck_mover_bone not found'']
         else [])"
    and "rhinoAt slerp bs
           \<lparr>frontLeg1L = fl, backLeg1L = bl, frontLeg1R = fr, backLeg1R = br\<rparr>
           (collectBones bs ''Neck_mover_bone'') 0 (rhinoSetup slerp True (rhinoInit bs))"
  using assms
  by (simp_all add: rhinoSetup_def rhinoInit_def rhinoWarn_def Let_def rhinoAt_def
      bodyCore_def bodyNeck_def bodyPending_def bodyElapsed_def legPausedAt_def
      legStartsAt_def legStopsAt_def positionAt_def neckAt_def split: option.splits)

lemma rhinoSetup_missing_leg:
  assumes "collectBones bs ''Front_leg_1_L'' = None \<or> collectBones bs ''Back_leg_1_L'' = None
    \<or> collectBones bs ''Front_leg_1_R'' = None \<or> collectBones bs ''Back_leg_1_R'' = None"
  shows "timelines (rhinoSetup slerp True (rhinoInit bs)) = None"
    and "world (rhinoSetup slerp True (rhinoInit bs)) = world (rhinoInit bs)"
    and "rhino_warnings (rhinoSetup slerp True (rhinoInit bs))
      = (if collectBones bs ''Neck_mover_bone'' = None then [''Neck_mover_bone not found'']
         else []) @ [''Missing leg bones'']"
  using assms
  by (auto simp: rhinoSetup_def rhinoInit_def rhinoWarn_def Let_def split: option.splits)

lemma neck_valid:
  assumes "collectBones bs ''Front_leg_1_L'' = Some fl"
    "collectBones bs ''Back_leg_1_L'' = Some bl"
    "collectBones bs ''Front_leg_1_R'' = Some fr"
    "collectBones bs ''Back_leg_1_R'' = Some br"
    "collectBones bs ''Neck_mover_bone'' = Some n"
  shows "n < length bs
    \<and> n \<notin> legSet \<lparr>frontLeg1L = fl, backLeg1L = bl, frontLeg1R = fr, backLeg1R = br\<rparr>"
proof -
  have "n \<noteq> fl" using collectBones_distinct [OF assms(5) assms(1)] by simp
  moreover have "n \<noteq> bl" using collectBones_distinct [OF assms(5) assms(2)] by simp
  moreover have "n \<noteq> fr" using collectBones_distinct [OF assms(5) assms(3)] by simp
  moreover have "n \<noteq> br" using collectBones_distinct [OF assms(5) assms(4)] by simp
  ultimately show ?thesis using collectBones_Some [OF assms(5)] by (simp add: legSet_def)
qed

lemma mounted_run:
  assumes legs: "collectBones bs ''Front_leg_1_L'' = Some fl"
    "collectBones bs ''Back_leg_1_L'' = Some bl"
    "collectBones bs ''Front_leg_1_R'' = Some fr"
    "collectBones bs ''Back_leg_1_R'' = Some br"
    and ticks: "\<forall>dt\<in>set dts. 0 \<le> dt"
  shows "rhinoAt slerp bs \<lparr>frontLeg1L = fl, backLeg1L = bl, frontLeg1R = fr, backLeg1R = br\<rparr>
     (collectBones bs ''Neck_mover_bone'') (sum_list dts)
     (rhinoRun slerp dts (rhinoSetup slerp True (rhinoInit bs)))"
proof -
  have "rhinoAt slerp bs \<lparr>frontLeg1L = fl, backLeg1L = bl, frontLeg1R = fr, backLeg1R = br\<rparr>
     (collectBones bs ''Neck_mover_bone'') (0 + sum_list dts)
     (rhinoRun slerp dts (rhinoSetup slerp True (rhinoInit bs)))"
    by (rule rhinoRun_matches [OF rhinoSetup_resolved(3) [OF legs] ticks])
      (rule neck_valid [OF legs])
  then show ?thesis by simp
qed

subsection \<open>The schedule of the body timeline and the missing joints\<close>

lemma sampleBones_resolved:
  "collectBones sampleBones ''Front_leg_1_L'' = Some 1"
  "collectBones sampleBones ''Back_leg_1_L'' = Some 2"
  "collectBones sampleBones ''Front_leg_1_R'' = Some 3"
  "collectBones sampleBones ''Back_leg_1_R'' = Some 4"
  "collectBones sampleBones ''Neck_mover_bone'' = Some 5"
  by (simp_all add: collectBones_def sampleBones_def upt_rec)

lemma sampleBones_no_neck:
  "collectBones (take 5 sampleBones) ''Front_leg_1_L'' = Some 1"
  "collectBones (take 5 sampleBones) ''Back_leg_1_L'' = Some 2"
  "collectBones (take 5 sampleBones) ''Front_leg_1_R'' = Some 3"
  "collectBones (take 5 sampleBones) ''Back_leg_1_R'' = Some 4"
  "collectBones (take 5 sampleBones) ''Neck_mover_bone'' = None"
  by (simp_all add: collectBones_def sampleBones_def upt_rec)

lemma sampleBones_no_leg:
  "collectBones (take 4 sampleBones) ''Back_leg_1_R'' = None"
  by (simp add: collectBones_def sampleBones_def upt_rec)

text \<open>
  C4. After a setup that resolved the four leg joints, and for every sequence of ticks, the
  time \<open>T\<close> the playhead has reached (the sum of the ticks) determines where the body
  timeline stands, its steps being taken in the order they were appended. Before \<open>T = 5\<close>
  the wait is pending and the leg timeline is paused and has never started. From \<open>T = 5\<close>
  on it has started exactly once; for \<open>5 \<le> T < 9\<close> it plays while the walk tween moves \<open>x\<close>
  from \<open>-15\<close> with the in-out ease. From \<open>T = 9\<close> on the walk tween has completed
  (\<open>x = -9.5\<close>) and the leg timeline has been paused, once, by the callback that follows
  the tween at once. If the neck joint was resolved, its orientation is the one it had at
  setup as long as \<open>T < 9\<close>, so this is the orientation the blend starts from; for
  \<open>9 \<le> T < 10.8\<close> it is the interpolation from that orientation to \<open>lookAtViewerQuat\<close> at
  the out-eased progress \<open>(T - 9) / 1.8\<close>, and from \<open>T = 10.8\<close> on the interpolation at 1.
  Without a neck joint the timeline has no look-at step.
\<close>

theorem body_timeline_schedule:
  fixes slerp :: "quat \<Rightarrow> quat \<Rightarrow> real \<Rightarrow> quat"
  assumes legs: "collectBones bs ''Front_leg_1_L'' = Some fl"
    "collectBones bs ''Back_leg_1_L'' = Some bl"
    "collectBones bs ''Front_leg_1_R'' = Some fr"
    "collectBones bs ''Back_leg_1_R'' = Some br"
    and ticks: "\<forall>dt\<in>set dts. 0 \<le> dt"
  defines "T \<equiv> sum_list dts"
    and "st \<equiv> rhinoRun slerp dts (rhinoSetup slerp True (rhinoInit bs))"
    and "neck \<equiv> collectBones bs ''Neck_mover_bone''"
  shows "(\<exists>tls. timelines st = Some tls
            \<and> pending tls =
                (if T < 5 then walkSteps @ lookAtSteps slerp bs neck
                 else if T < 9 then drop 2 walkSteps @ lookAtSteps slerp bs neck
                 else if T < 9 + 18 / 10 then lookAtSteps slerp bs neck
                 else []))
    \<and> legPaused (world st) = (T < 5 \<or> 9 \<le> T)
    \<and> legStarts (world st) = (if T < 5 then 0 else 1)
    \<and> legStops (world st) = (if T < 9 then 0 else 1)
    \<and> position_x (world st) =
        (if T < 5 then - 15
         else if T < 9 then - 15 + (- (95 / 10) - (- 15)) * easeAt Power2InOut ((T - 5) / 4)
         else - (95 / 10))
    \<and> (\<forall>n. neck = Some n \<longrightarrow>
          lookAtSteps slerp bs neck
            = [Tween (18 / 10) Power2Out
                 (\<lambda>t. setQuaternion n (slerp (quaternion (bs ! n)) lookAtViewerQuat t))]
          \<and> quaternion (bones (world st) ! n) =
              (if T < 9 then quaternion (bs ! n)
               else if T < 9 + 18 / 10
                 then slerp (quaternion (bs ! n)) lookAtViewerQuat
                        (easeAt Power2Out ((T - 9) / (18 / 10)))
               else slerp (quaternion (bs ! n)) lookAtViewerQuat 1))
    \<and> (neck = None \<longrightarrow> lookAtSteps slerp bs neck = [])"
proof -
  have "rhinoAt slerp bs \<lparr>frontLeg1L = fl, backLeg1L = bl, frontLeg1R = fr, backLeg1R = br\<rparr>
     neck T st"
    unfolding T_def st_def neck_def by (rule mounted_run [OF legs ticks])
  then show ?thesis
    by (auto simp: rhinoAt_def bodyCore_def bodyNeck_def bodyPending_def legPausedAt_def
        legStartsAt_def legStopsAt_def positionAt_def neckAt_def lookAtSteps_def Let_def
        split: option.splits)
qed

theorem body_timeline_schedule_witness:
  "collectBones sampleBones ''Front_leg_1_L'' = Some 1
   \<and> collectBones sampleBones ''Back_leg_1_L'' = Some 2
   \<and> collectBones sampleBones ''Front_leg_1_R'' = Some 3
   \<and> collectBones sampleBones ''Back_leg_1_R'' = Some 4
   \<and> collectBones sampleBones ''Neck_mover_bone'' = Some 5
   \<and> (0 :: real) \<le> 3 \<and> (0 :: real) \<le> 2 \<and> (0 :: real) \<le> 4
   \<and> \<not> legPaused (world (rhinoRun mix [3, 2] (rhinoSetup mix True (rhinoInit sampleBones))))
   \<and> legStarts (world (rhinoRun mix [3, 2] (rhinoSetup mix True (rhinoInit sampleBones)))) = 1
   \<and> legPaused (world (rhinoRun mix [3, 2, 4] (rhinoSetup mix True (rhinoInit sampleBones))))
   \<and> legStarts (world (rhinoRun mix [3, 2, 4] (rhinoSetup mix True (rhinoInit sampleBones)))) = 1
   \<and> legStops (world (rhinoRun mix [3, 2, 4] (rhinoSetup mix True (rhinoInit sampleBones)))) = 1
   \<and> position_x (world (rhinoRun mix [3, 2, 4] (rhinoSetup mix True (rhinoInit sampleBones))))
       = - (95 / 10)
   \<and> quaternion (bones (world (rhinoRun mix [3, 2, 4, 2]
        (rhinoSetup mix True (rhinoInit sampleBones)))) ! 5)
       = mix (quaternion (sampleBones ! 5)) lookAtViewerQuat 1"
proof -
  have t1: "\<forall>dt\<in>set [3, 2 :: real]. 0 \<le> dt" by simp
  have t2: "\<forall>dt\<in>set [3, 2, 4 :: real]. 0 \<le> dt" by simp
  have t3: "\<forall>dt\<in>set [3, 2, 4, 2 :: real]. 0 \<le> dt" by simp
  note a = body_timeline_schedule [OF sampleBones_resolved(1-4) t1, where slerp = mix]
  note b = body_timeline_schedule [OF sampleBones_resolved(1-4) t2, where slerp = mix]
  note c = body_timeline_schedule [OF sampleBones_resolved(1-4) t3, where slerp = mix]
  have 1: "\<not> legPaused (world (rhinoRun mix [3, 2] (rhinoSetup mix True (rhinoInit sampleBones))))"
    "legStarts (world (rhinoRun mix [3, 2] (rhinoSetup mix True (rhinoInit sampleBones)))) = 1"
    using a by simp_all
  have 2: "legPaused (world (rhinoRun mix [3, 2, 4] (rhinoSetup mix True (rhinoInit sampleBones))))"
    "legStarts (world (rhinoRun mix [3, 2, 4] (rhinoSetup mix True (rhinoInit sampleBones)))) = 1"
    "legStops (world (rhinoRun mix [3, 2, 4] (rhinoSetup mix True (rhinoInit sampleBones)))) = 1"
    "position_x (world (rhinoRun mix [3, 2, 4] (rhinoSetup mix True (rhinoInit sampleBones))))
       = - (95 / 10)"
    using b by simp_all
  have 3: "quaternion (bones (world (rhinoRun mix [3, 2, 4, 2]
        (rhinoSetup mix True (rhinoInit sampleBones)))) ! 5)
       = mix (quaternion (sampleBones ! 5)) lookAtViewerQuat 1"
    using c sampleBones_resolved(5) by simp
  have "(0 :: real) \<le> 3 \<and> (0 :: real) \<le> 2 \<and> (0 :: real) \<le> 4" by simp
  then show ?thesis using sampleBones_resolved 1 2 3 by blast
qed

text \<open>
  C7. If one of the four leg joints does not resolve, the setup warns and returns before
  any timeline exists: the world is the one before the setup and no run of ticks changes
  anything, so no joint is ever written. If the four leg joints resolve, the timelines are
  created whether or not the neck joint resolves; without the neck joint the setup warns,
  the body timeline is the walk sequence alone, with no look-at step, and the leg timeline
  and the root position follow the same schedule as with a neck joint.
\<close>

theorem missing_joints:
  fixes slerp :: "quat \<Rightarrow> quat \<Rightarrow> real \<Rightarrow> quat" and bs :: "bone list"
  defines "st \<equiv> rhinoSetup slerp True (rhinoInit bs)"
    and "neck \<equiv> collectBones bs ''Neck_mover_bone''"
  shows "(collectBones bs ''Front_leg_1_L'' = None \<or> collectBones bs ''Back_leg_1_L'' = None
          \<or> collectBones bs ''Front_leg_1_R'' = None \<or> collectBones bs ''Back_leg_1_R'' = None
        \<longrightarrow> timelines st = None
            \<and> world st = world (rhinoInit bs)
            \<and> last (rhino_warnings st) = ''Missing leg bones''
            \<and> (\<forall>dts. rhinoRun slerp dts st = st))
    \<and> (collectBones bs ''Front_leg_1_L'' = Some fl \<and> collectBones bs ''Back_leg_1_L'' = Some bl
          \<and> collectBones bs ''Front_leg_1_R'' = Some fr \<and> collectBones bs ''Back_leg_1_R'' = Some br
        \<longrightarrow> timelines st
              = Some \<lparr>legJoints = \<lparr>frontLeg1L = fl, backLeg1L = bl, frontLeg1R = fr,
                                    backLeg1R = br\<rparr>,
                      pending = walkSteps @ lookAtSteps slerp bs neck, elapsed = 0\<rparr>
            \<and> (neck = None \<longrightarrow> lookAtSteps slerp bs neck = []
                  \<and> rhino_warnings st = [''Neck_mover_bone not found''])
            \<and> (\<forall>dts. (\<forall>dt\<in>set dts. 0 \<le> dt) \<longrightarrow>
                  legPaused (world (rhinoRun slerp dts st)) = legPausedAt (sum_list dts)
                  \<and> legStarts (world (rhinoRun slerp dts st)) = legStartsAt (sum_list dts)
                  \<and> legStops (world (rhinoRun slerp dts st)) = legStopsAt (sum_list dts)
                  \<and> position_x (world (rhinoRun slerp dts st)) = positionAt (sum_list dts)))"
proof -
  have a: "timelines st = None \<and> world st = world (rhinoInit bs)
      \<and> last (rhino_warnings st) = ''Missing leg bones'' \<and> (\<forall>dts. rhinoRun slerp dts st = st)"
    if "collectBones bs ''Front_leg_1_L'' = None \<or> collectBones bs ''Back_leg_1_L'' = None
          \<or> collectBones bs ''Front_leg_1_R'' = None \<or> collectBones bs ''Back_leg_1_R'' = None"
    using rhinoSetup_missing_leg [OF that, of slerp] rhinoRun_static [of st slerp]
    unfolding st_def by simp
  have b: "timelines st
              = Some \<lparr>legJoints = \<lparr>frontLeg1L = fl, backLeg1L = bl, frontLeg1R = fr,
                                    backLeg1R = br\<rparr>,
                      pending = walkSteps @ lookAtSteps slerp bs neck, elapsed = 0\<rparr>
            \<and> (neck = None \<longrightarrow> lookAtSteps slerp bs neck = []
                  \<and> rhino_warnings st = [''Neck_mover_bone not found''])
            \<and> (\<forall>dts. (\<forall>dt\<in>set dts. 0 \<le> dt) \<longrightarrow>
                  legPaused (world (rhinoRun slerp dts st)) = legPausedAt (sum_list dts)
                  \<and> legStarts (world (rhinoRun slerp dts st)) = legStartsAt (sum_list dts)
                  \<and> legStops (world (rhinoRun slerp dts st)) = legStopsAt (sum_list dts)
                  \<and> position_x (world (rhinoRun slerp dts st)) = positionAt (sum_list dts))"
    if legs: "collectBones bs ''Front_leg_1_L'' = Some fl" "collectBones bs ''Back_leg_1_L'' = Some bl"
      "collectBones bs ''Front_leg_1_R'' = Some fr" "collectBones bs ''Back_leg_1_R'' = Some br"
  proof -
    have r: "legPaused (world (rhinoRun slerp dts st)) = legPausedAt (sum_list dts)
          \<and> legStarts (world (rhinoRun slerp dts st)) = legStartsAt (sum_list dts)
          \<and> legStops (world (rhinoRun slerp dts st)) = legStopsAt (sum_list dts)
          \<and> position_x (world (rhinoRun slerp dts st)) = positionAt (sum_list dts)"
      if "\<forall>dt\<in>set dts. 0 \<le> dt" for dts
      using mounted_run [OF legs that, of slerp] unfolding st_def
      by (auto simp: rhinoAt_def bodyCore_def split: option.splits)
    show ?thesis
      using rhinoSetup_resolved(1,2) [OF legs, of slerp] r unfolding st_def neck_def
      by (simp add: lookAtSteps_def)
  qed
  show ?thesis using a b by blast
qed

theorem missing_joints_witness:
  "collectBones (take 4 sampleBones) ''Back_leg_1_R'' = None
   \<and> timelines (rhinoSetup mix True (rhinoInit (take 4 sampleBones))) = None
   \<and> bones (world (rhinoRun mix [5, 1] (rhinoSetup mix True (rhinoInit (take 4 sampleBones)))))
       = take 4 sampleBones
   \<and> collectBones (take 5 sampleBones) ''Front_leg_1_L'' = Some 1
   \<and> collectBones (take 5 sampleBones) ''Back_leg_1_L'' = Some 2
   \<and> collectBones (take 5 sampleBones) ''Front_leg_1_R'' = Some 3
   \<and> collectBones (take 5 sampleBones) ''Back_leg_1_R'' = Some 4
   \<and> collectBones (take 5 sampleBones) ''Neck_mover_bone'' = None
   \<and> timelines (rhinoSetup mix True (rhinoInit (take 5 sampleBones)))
       = Some \<lparr>legJoints = sampleLegs, pending = walkSteps, elapsed = 0\<rparr>
   \<and> rhino_warnings (rhinoSetup mix True (rhinoInit (take 5 sampleBones)))
       = [''Neck_mover_bone not found'']
   \<and> (0 :: real) \<le> 5 \<and> (0 :: real) \<le> 1
   \<and> \<not> legPaused (world (rhinoRun mix [5, 1] (rhinoSetup mix True (rhinoInit (take 5 sampleBones)))))"
proof -
  note a = missing_joints [where bs = "take 4 sampleBones" and slerp = mix]
  note b = missing_joints [where bs = "take 5 sampleBones" and slerp = mix and fl = 1
      and bl = 2 and fr = 3 and br = 4]
  have t: "\<forall>dt\<in>set [5, 1 :: real]. 0 \<le> dt" by simp
  have 1: "timelines (rhinoSetup mix True (rhinoInit (take 4 sampleBones))) = None"
    "rhinoRun mix [5, 1] (rhinoSetup mix True (rhinoInit (take 4 sampleBones)))
       = rhinoSetup mix True (rhinoInit (take 4 sampleBones))"
    "world (rhinoSetup mix True (rhinoInit (take 4 sampleBones)))
       = world (rhinoInit (take 4 sampleBones))"
    using a sampleBones_no_leg by blast+
  have 2: "bones (world (rhinoRun mix [5, 1] (rhinoSetup mix True (rhinoInit (take 4 sampleBones)))))
       = take 4 sampleBones"
    unfolding 1 by (simp add: rhinoInit_def)
  have 3: "timelines (rhinoSetup mix True (rhinoInit (take 5 sampleBones)))
       = Some \<lparr>legJoints = sampleLegs, pending = walkSteps, elapsed = 0\<rparr>"
    "rhino_warnings (rhinoSetup mix True (rhinoInit (take 5 sampleBones)))
       = [''Neck_mover_bone not found'']"
    using b sampleBones_no_neck by (simp_all add: sampleLegs_def)
  have "legPaused (world (rhinoRun mix [5, 1] (rhinoSetup mix True (rhinoInit (take 5 sampleBones)))))
      = legPausedAt (sum_list [5, 1])"
    using b sampleBones_no_neck t by blast
  then have 4: "\<not> legPaused (world (rhinoRun mix [5, 1]
      (rhinoSetup mix True (rhinoInit (take 5 sampleBones)))))"
    by (simp add: legPausedAt_def)
  have "(0 :: real) \<le> 5 \<and> (0 :: real) \<le> 1" by simp
  then show ?thesis using sampleBones_no_leg sampleBones_no_neck 1(1) 2 3 4 by blast
qed

end
